theory Spec2Isabelle
  imports Complex_Main "HOL-Library.Word"
begin

text \<open>
  A model of \<open>server.js\<close>, an Express application that relays text generation requests
  to a chat completion provider and computes two earnings estimates. The values of the
  language come first, then the middleware and the handlers in the order of the source,
  then the properties of the program.
\<close>

section \<open>JavaScript values\<close>

text \<open>
  A JavaScript string is a sequence of UTF-16 code units. Literals of the source are
  written through \<open>str\<close>, which reads a character of an Isabelle string as its code.
\<close>

type_synonym code_unit = "16 word"
type_synonym jsstring = "code_unit list"

definition str :: "string \<Rightarrow> jsstring" where
  "str s = map of_char s"

definition LF :: code_unit where
  "LF = 0x0A"

definition CR :: code_unit where
  "CR = 0x0D"

text \<open>
  A JavaScript number is an IEEE binary64 value. The model keeps a finite value as the
  rational it denotes, next to \<open>NaN\<close> and the two infinities; the sign of zero is not
  kept (it shows in no response). Rounding is not computed here: every operation
  rounds its exact result with the function \<open>round64\<close> of the runtime below.
\<close>

datatype jsnum = Fin rat | NaN | PosInf | NegInf

text \<open>A value that \<open>JSON.parse\<close> can produce: the request body and the provider's answer.\<close>

datatype json =
    JNull
  | JBool bool
  | JNum jsnum
  | JStr jsstring
  | JArr "json list"
  | JObj "(jsstring \<times> json) list"

text \<open>Whatever the program throws is an error object with a \<open>message\<close>.\<close>

datatype js_error = Error jsstring | TypeError jsstring | SyntaxError jsstring

fun message :: "js_error \<Rightarrow> jsstring" where
  "message (Error m) = m"
| "message (TypeError m) = m"
| "message (SyntaxError m) = m"

text \<open>
  The primitives of the language that the model does not compute are parameters:
  \<open>round64\<close> rounds an exact result to binary64 (to an infinity on overflow),
  \<open>print_number\<close> is \<open>Number::toString\<close> on the finite numbers that are not integers
  below \<open>2^53\<close> in magnitude, and \<open>string_to_number\<close> is \<open>StringToNumber\<close>.
\<close>

record runtime =
  round64 :: "rat \<Rightarrow> jsnum"
  print_number :: "rat \<Rightarrow> jsstring"
  string_to_number :: "jsstring \<Rightarrow> jsnum"

subsection \<open>Strings\<close>

text \<open>\<open>!s\<close> and \<open>filter(Boolean)\<close> on a string: only the empty string is falsy.\<close>

definition truthy :: "jsstring \<Rightarrow> bool" where
  "truthy s = (s \<noteq> [])"

text \<open>\<open>!v\<close> where \<open>v\<close> is a string or \<open>undefined\<close> (an environment variable, a header).\<close>

fun falsy :: "jsstring option \<Rightarrow> bool" where
  "falsy None = True"
| "falsy (Some s) = (\<not> truthy s)"

text \<open>
  The code units \<open>String.prototype.trim\<close> strips: ECMAScript's WhiteSpace and
  LineTerminator.
\<close>

definition is_ws :: "code_unit \<Rightarrow> bool" where
  "is_ws c = (c = 0x09 \<or> c = 0x0A \<or> c = 0x0B \<or> c = 0x0C \<or> c = 0x0D \<or> c = 0x20
     \<or> c = 0xA0 \<or> c = 0x1680 \<or> (0x2000 \<le> c \<and> c \<le> 0x200A) \<or> c = 0x2028
     \<or> c = 0x2029 \<or> c = 0x202F \<or> c = 0x205F \<or> c = 0x3000 \<or> c = 0xFEFF)"

definition trim :: "jsstring \<Rightarrow> jsstring" where
  "trim s = rev (dropWhile is_ws (rev (dropWhile is_ws s)))"

text \<open>
  \<open>s.split(/\r?\n/)\<close>: the scan goes left to right; at a carriage return followed by a
  line feed the pattern matches both, at a line feed it matches that one code unit, and
  anywhere else it does not match. The pieces between the matches are returned, so the
  empty string gives one empty piece.
\<close>

fun split_lines :: "jsstring \<Rightarrow> jsstring list" where
  "split_lines [] = [[]]"
| "split_lines [c] = (if c = LF then [[], []] else [[c]])"
| "split_lines (c # d # cs) =
     (if c = LF then [] # split_lines (d # cs)
      else if c = CR \<and> d = LF then [] # split_lines cs
      else (case split_lines (d # cs) of
              [] \<Rightarrow> [[c]]
            | p # ps \<Rightarrow> (c # p) # ps))"

text \<open>The matches of \<open>/\r?\n/\<close> in the same scan, in order: the separators of the pieces.\<close>

fun line_breaks :: "jsstring \<Rightarrow> jsstring list" where
  "line_breaks [] = []"
| "line_breaks [c] = (if c = LF then [[LF]] else [])"
| "line_breaks (c # d # cs) =
     (if c = LF then [LF] # line_breaks (d # cs)
      else if c = CR \<and> d = LF then [CR, LF] # line_breaks cs
      else line_breaks (d # cs))"

text \<open>Pieces and the separators between them, put back together.\<close>

fun weave :: "jsstring list \<Rightarrow> jsstring list \<Rightarrow> jsstring" where
  "weave [] ss = []"
| "weave (p # ps) [] = p"
| "weave (p # ps) (s # ss) = p @ s @ weave ps ss"

text \<open>
  The three generation handlers parse the provider's text in the same way,
  \<open>out.split(/\r?\n/).map(l => l.trim()).filter(Boolean)\<close> followed by
  \<open>lines.slice(0, limit)\<close>, with the literal limits 10, 15 and 5. The limit is a count.
\<close>

definition parseLines :: "jsstring \<Rightarrow> nat \<Rightarrow> jsstring list" where
  "parseLines raw limit = take limit (filter truthy (map trim (split_lines raw)))"

text \<open>\<open>s.split(",")\<close>: the pieces between the commas.\<close>

fun split_on :: "code_unit \<Rightarrow> jsstring \<Rightarrow> jsstring list" where
  "split_on sep [] = [[]]"
| "split_on sep (c # cs) =
     (if c = sep then [] # split_on sep cs
      else (case split_on sep cs of
              [] \<Rightarrow> [[c]]
            | p # ps \<Rightarrow> (c # p) # ps))"

text \<open>The decimal digits of a natural number, as \<open>${resp.status}\<close> prints it.\<close>

fun digits :: "nat \<Rightarrow> jsstring" where
  "digits n = (if n < 10 then [of_nat (48 + n)]
               else digits (n div 10) @ [of_nat (48 + n mod 10)])"

declare digits.simps [simp del]

subsection \<open>Numbers\<close>

definition is_zero :: "jsnum \<Rightarrow> bool" where
  "is_zero x = (x = Fin 0)"

fun negative :: "jsnum \<Rightarrow> bool" where
  "negative (Fin a) = (a < 0)"
| "negative NegInf = True"
| "negative PosInf = False"
| "negative NaN = False"

text \<open>
  \<open>x * y\<close>: two finite factors give their rounded product; otherwise \<open>NaN\<close> absorbs,
  zero times an infinity is \<open>NaN\<close>, and an infinity keeps the product of the signs.
\<close>

definition num_mul :: "runtime \<Rightarrow> jsnum \<Rightarrow> jsnum \<Rightarrow> jsnum" where
  "num_mul rt x y =
     (case (x, y) of
        (Fin a, Fin b) \<Rightarrow> round64 rt (a * b)
      | _ \<Rightarrow> if x = NaN \<or> y = NaN \<or> is_zero x \<or> is_zero y then NaN
             else if negative x = negative y then PosInf else NegInf)"

text \<open>\<open>x / 1000\<close>, the only division of the program.\<close>

fun div_1000 :: "runtime \<Rightarrow> jsnum \<Rightarrow> jsnum" where
  "div_1000 rt (Fin a) = round64 rt (a / 1000)"
| "div_1000 rt NaN = NaN"
| "div_1000 rt PosInf = PosInf"
| "div_1000 rt NegInf = NegInf"

text \<open>
  \<open>Number::toString\<close>: an integer below \<open>2^53\<close> in magnitude prints its digits. (A
  larger one prints the shortest digits that read back as the same binary64 value,
  which is left to \<open>print_number\<close>.)
\<close>

definition number_to_string :: "runtime \<Rightarrow> jsnum \<Rightarrow> jsstring" where
  "number_to_string rt n =
     (case n of
        NaN \<Rightarrow> str ''NaN''
      | PosInf \<Rightarrow> str ''Infinity''
      | NegInf \<Rightarrow> str ''-Infinity''
      | Fin q \<Rightarrow>
          if of_int \<lfloor>q\<rfloor> = q \<and> \<bar>q\<bar> < 2 ^ 53
          then (if q < 0 then str ''-'' @ digits (nat (- \<lfloor>q\<rfloor>)) else digits (nat \<lfloor>q\<rfloor>))
          else print_number rt q)"

subsection \<open>Conversions of a JSON value\<close>

definition cannot_convert :: js_error where
  "cannot_convert = TypeError (str ''Cannot convert object to primitive value'')"

text \<open>
  \<open>ToString\<close>, as a template literal and a property key apply it. An object prints as
  \<open>[object Object]\<close> through the \<open>toString\<close> it inherits; an own property of that name
  (a JSON value, never a function) leaves it no conversion, and a TypeError is thrown.
  An array prints its elements joined by commas, \<open>null\<close> as the empty string.
\<close>

fun to_string :: "runtime \<Rightarrow> json \<Rightarrow> js_error + jsstring"
  and join_elements :: "runtime \<Rightarrow> json list \<Rightarrow> js_error + jsstring"
  where
  "to_string rt JNull = Inr (str ''null'')"
| "to_string rt (JBool b) = Inr (if b then str ''true'' else str ''false'')"
| "to_string rt (JNum n) = Inr (number_to_string rt n)"
| "to_string rt (JStr s) = Inr s"
| "to_string rt (JArr xs) = join_elements rt xs"
| "to_string rt (JObj kvs) =
     (if map_of kvs (str ''toString'') = None then Inr (str ''[object Object]'')
      else Inl cannot_convert)"
| "join_elements rt [] = Inr []"
| "join_elements rt (x # xs) =
     (case (if x = JNull then Inr [] else to_string rt x) of
        Inl e \<Rightarrow> Inl e
      | Inr s \<Rightarrow>
          (if xs = [] then Inr s
           else (case join_elements rt xs of
                   Inl e \<Rightarrow> Inl e
                 | Inr t \<Rightarrow> Inr (s @ str '','' @ t))))"

text \<open>\<open>Number(v)\<close>.\<close>

fun to_number :: "runtime \<Rightarrow> json \<Rightarrow> js_error + jsnum" where
  "to_number rt JNull = Inr (Fin 0)"
| "to_number rt (JBool b) = Inr (Fin (if b then 1 else 0))"
| "to_number rt (JNum n) = Inr n"
| "to_number rt (JStr s) = Inr (string_to_number rt s)"
| "to_number rt (JArr xs) =
     (case join_elements rt xs of
        Inl e \<Rightarrow> Inl e
      | Inr s \<Rightarrow> Inr (string_to_number rt s))"
| "to_number rt (JObj kvs) =
     (if map_of kvs (str ''toString'') = None then Inr NaN else Inl cannot_convert)"

text \<open>
  \<open>JSON.stringify\<close>, read back as a JSON value: a number that is not finite is sent as
  \<open>null\<close>.
\<close>

fun wire :: "json \<Rightarrow> json"
  and wire_list :: "json list \<Rightarrow> json list"
  and wire_fields :: "(jsstring \<times> json) list \<Rightarrow> (jsstring \<times> json) list"
  where
  "wire JNull = JNull"
| "wire (JBool b) = JBool b"
| "wire (JNum n) = (case n of Fin q \<Rightarrow> JNum (Fin q) | _ \<Rightarrow> JNull)"
| "wire (JStr s) = JStr s"
| "wire (JArr xs) = JArr (wire_list xs)"
| "wire (JObj kvs) = JObj (wire_fields kvs)"
| "wire_list [] = []"
| "wire_list (x # xs) = wire x # wire_list xs"
| "wire_fields [] = []"
| "wire_fields (kv # kvs) = (fst kv, wire (snd kv)) # wire_fields kvs"

text \<open>
  A field of the request body, as \<open>const { f = d } = req.body\<close> reads it: \<open>None\<close> is
  \<open>undefined\<close>. \<open>express.json()\<close> leaves an object or an array in \<open>req.body\<close> (the empty
  object when the request has no JSON body); an array has a \<open>length\<close>.
\<close>

fun body_field :: "json \<Rightarrow> jsstring \<Rightarrow> json option" where
  "body_field (JObj kvs) k = map_of kvs k"
| "body_field (JArr xs) k =
     (if k = str ''length'' then Some (JNum (Fin (of_nat (length xs)))) else None)"
| "body_field _ k = None"

definition field_or :: "json \<Rightarrow> jsstring \<Rightarrow> json \<Rightarrow> json" where
  "field_or b k d = (case body_field b k of None \<Rightarrow> d | Some v \<Rightarrow> v)"

section \<open>The server\<close>

subsection \<open>Configuration, requests and responses\<close>

text \<open>\<open>process.env\<close>: a variable is a string or \<open>undefined\<close>.\<close>

record env =
  ALLOWED_ORIGINS :: "jsstring option"
  CLIENT_API_KEY :: "jsstring option"
  OPENAI_API_KEY :: "jsstring option"

text \<open>The route Express resolves the method and the path of a request to.\<close>

datatype route =
    GenerateTitle | GenerateName | GenerateBio | CalcSubs | CalcAds | Health | NoRoute

text \<open>
  A request as the middleware of the application sees it: the two headers it reads
  (\<open>None\<close> when the request does not carry the header) and the body that
  \<open>express.json()\<close> has parsed. A preflight (\<open>OPTIONS\<close>) request, which the \<open>cors\<close>
  package answers itself, is not a request of this model.
\<close>

record request =
  route :: route
  origin :: "jsstring option"
  x_api_key :: "jsstring option"
  body :: json

datatype payload = JsonBody json | TextBody jsstring

record response =
  status :: nat
  payload :: payload

text \<open>\<open>res.status(st).json(v)\<close>; \<open>res.json(v)\<close> is the same with status 200.\<close>

definition json_reply :: "nat \<Rightarrow> json \<Rightarrow> response" where
  "json_reply st v = \<lparr>status = st, payload = JsonBody (wire v)\<rparr>"

text \<open>
  How the handling of a request ends: a response of the application, an error handed to
  Express (\<open>next(err)\<close>, or a throw in a synchronous handler), after which no middleware
  or handler of the application runs and Express's own error handler answers, or no
  route at all.
\<close>

datatype outcome = Responded response | Failed js_error | NotFound

subsection \<open>Origin policy\<close>

text \<open>
  \<open>const allowed = process.env.ALLOWED_ORIGINS
     ? process.env.ALLOWED_ORIGINS.split(",").map(s => s.trim()) : null\<close>
\<close>

definition allowed :: "env \<Rightarrow> jsstring list option" where
  "allowed e =
     (case ALLOWED_ORIGINS e of
        None \<Rightarrow> None
      | Some s \<Rightarrow> if truthy s then Some (map trim (split_on 0x2C s)) else None)"

text \<open>
  The \<open>origin\<close> function given to \<open>cors\<close>; \<open>Inr True\<close> is \<open>callback(null, true)\<close> and
  \<open>Inl err\<close> is \<open>callback(err, false)\<close>.
\<close>

definition origin_callback :: "jsstring list option \<Rightarrow> jsstring option \<Rightarrow> js_error + bool" where
  "origin_callback al orig =
     (case al of
        None \<Rightarrow> Inr True
      | Some list \<Rightarrow>
          (case orig of
             None \<Rightarrow> Inr True
           | Some og \<Rightarrow>
               if \<not> truthy og then Inr True
               else if og \<in> set list then Inr True
               else Inl (Error (str ''CORS not allowed''))))"

subsection \<open>Client authentication\<close>

definition unauthorized :: response where
  "unauthorized = json_reply 401 (JObj [(str ''error'', JStr (str ''Missing or invalid x-api-key header''))])"

text \<open>The second middleware: \<open>None\<close> is \<open>next()\<close>, \<open>Some r\<close> ends the request with \<open>r\<close>.\<close>

definition auth :: "env \<Rightarrow> request \<Rightarrow> response option" where
  "auth e req =
     (let clientKey = CLIENT_API_KEY e in
      if falsy clientKey then None
      else
        (let incoming = x_api_key req in
         if falsy incoming \<or> incoming \<noteq> clientKey then Some unauthorized
         else None))"

subsection \<open>The call to the provider\<close>

text \<open>What \<open>callOpenAI\<close> sends with \<open>fetch\<close>.\<close>

record fetch_request =
  url :: jsstring
  authorization :: jsstring
  model :: jsstring
  system_content :: jsstring
  user_content :: jsstring
  temperature :: rat
  max_tokens :: nat

text \<open>
  What \<open>fetch\<close> gives back: it rejects, or it resolves to a response with a status, the
  text of its body (\<open>resp.text()\<close>) and that body parsed (\<open>resp.json()\<close>, which rejects
  when the body is not JSON). The provider is a parameter of the model.
\<close>

datatype fetch_result =
    Rejected js_error
  | Resolved nat jsstring "js_error + json"

type_synonym provider = "fetch_request \<Rightarrow> fetch_result"

text \<open>\<open>resp.ok\<close>.\<close>

definition ok :: "nat \<Rightarrow> bool" where
  "ok st = (200 \<le> st \<and> st \<le> 299)"

text \<open>
  \<open>v.name\<close> for a name that arrays, strings, numbers and booleans do not have of their
  own or inherit (\<open>choices\<close>, \<open>message\<close>, \<open>content\<close>); \<open>None\<close> is \<open>undefined\<close>.
\<close>

fun named_prop :: "jsstring \<Rightarrow> json \<Rightarrow> json option" where
  "named_prop k (JObj kvs) = map_of kvs k"
| "named_prop k _ = None"

text \<open>\<open>v[0]\<close>.\<close>

fun index0 :: "json \<Rightarrow> json option" where
  "index0 (JArr []) = None"
| "index0 (JArr (x # xs)) = Some x"
| "index0 (JStr []) = None"
| "index0 (JStr (c # cs)) = Some (JStr [c])"
| "index0 (JObj kvs) = map_of kvs (str ''0'')"
| "index0 _ = None"

text \<open>Optional chaining, \<open>v?.p\<close>: \<open>undefined\<close> when \<open>v\<close> is \<open>undefined\<close> or \<open>null\<close>.\<close>

fun chain :: "json option \<Rightarrow> (json \<Rightarrow> json option) \<Rightarrow> json option" where
  "chain None f = None"
| "chain (Some JNull) f = None"
| "chain (Some v) f = f v"

text \<open>\<open>j.choices?.[0]?.message?.content\<close>, for \<open>j\<close> other than \<open>null\<close>.\<close>

definition first_choice_content :: "json \<Rightarrow> json option" where
  "first_choice_content j =
     chain (chain (chain (named_prop (str ''choices'') j) index0)
                  (named_prop (str ''message'')))
           (named_prop (str ''content''))"

text \<open>\<open>v ?? d\<close>.\<close>

fun nullish_or :: "json option \<Rightarrow> json \<Rightarrow> json" where
  "nullish_or None d = d"
| "nullish_or (Some JNull) d = d"
| "nullish_or (Some v) d = v"

definition chat_request :: "jsstring \<Rightarrow> jsstring \<Rightarrow> nat \<Rightarrow> fetch_request" where
  "chat_request key prompt maxTokens =
     \<lparr>url = str ''https://api.openai.com/v1/chat/completions'',
      authorization = str ''Bearer '' @ key,
      model = str ''gpt-4o-mini'',
      system_content = str ''You are a helpful creative assistant.'',
      user_content = prompt,
      temperature = 8 / 10,
      max_tokens = maxTokens\<rparr>"

text \<open>
  \<open>callOpenAI(prompt, maxTokens)\<close>: the value returned or the error thrown, and the
  requests sent to the provider on the way.
\<close>

definition callOpenAI ::
    "env \<Rightarrow> provider \<Rightarrow> jsstring \<Rightarrow> nat \<Rightarrow> (js_error + json) \<times> fetch_request list" where
  "callOpenAI e fetch prompt maxTokens =
     (case OPENAI_API_KEY e of
        None \<Rightarrow> (Inl (Error (str ''OPENAI_API_KEY missing in env'')), [])
      | Some key \<Rightarrow>
          if \<not> truthy key then (Inl (Error (str ''OPENAI_API_KEY missing in env'')), [])
          else
            (let rq = chat_request key prompt maxTokens in
             (case fetch rq of
                Rejected err \<Rightarrow> (Inl err, [rq])
              | Resolved st text parsed \<Rightarrow>
                  if \<not> ok st
                  then (Inl (Error (str ''OpenAI error '' @ digits st @ str '': '' @ text)), [rq])
                  else
                    (case parsed of
                       Inl err \<Rightarrow> (Inl err, [rq])
                     | Inr j \<Rightarrow>
                         if j = JNull
                         then (Inl (TypeError
                                 (str ''Cannot read properties of null (reading '' @ [0x27]
                                  @ str ''choices'' @ [0x27] @ str '')'')), [rq])
                         else (Inr (nullish_or (first_choice_content j) (JStr [])), [rq])))))"

subsection \<open>Generation handlers\<close>

text \<open>A template literal: text, and values substituted from left to right.\<close>

datatype part = Lit jsstring | Sub json

fun template :: "runtime \<Rightarrow> part list \<Rightarrow> js_error + jsstring" where
  "template rt [] = Inr []"
| "template rt (Lit s # ps) =
     (case template rt ps of Inl e \<Rightarrow> Inl e | Inr t \<Rightarrow> Inr (s @ t))"
| "template rt (Sub v # ps) =
     (case to_string rt v of
        Inl e \<Rightarrow> Inl e
      | Inr s \<Rightarrow> (case template rt ps of Inl e \<Rightarrow> Inl e | Inr t \<Rightarrow> Inr (s @ t)))"

definition title_prompt :: "json \<Rightarrow> part list" where
  "title_prompt b =
     [Lit (str ''Generate 10 short catchy stream titles (max 70 chars). Game: ''),
      Sub (field_or b (str ''game'') (JStr [])),
      Lit (str ''. Keywords: ''),
      Sub (field_or b (str ''keywords'') (JStr [])),
      Lit (str ''. Voice: ''),
      Sub (field_or b (str ''voice'') (JStr (str ''friendly''))),
      Lit (str ''. Output one per line.'')]"

definition name_prompt :: "json \<Rightarrow> part list" where
  "name_prompt b =
     [Lit (str ''Generate 15 creative Twitch usernames. Keywords: ''),
      Sub (field_or b (str ''keywords'') (JStr [])),
      Lit (str ''. Style: ''),
      Sub (field_or b (str ''style'') (JStr (str ''short''))),
      Lit (str ''. One per line.'')]"

definition bio_prompt :: "json \<Rightarrow> part list" where
  "bio_prompt b =
     [Lit (str ''Write 5 Twitch bio lines with vibe: ''),
      Sub (field_or b (str ''vibe'') (JStr (str ''friendly''))),
      Lit (str ''. Length: ''),
      Sub (field_or b (str ''length'') (JStr (str ''short''))),
      Lit (str ''. Output one per line.'')]"

text \<open>\<open>catch (e) { res.status(500).json({ error: e.message }); }\<close>\<close>

definition error_reply :: "js_error \<Rightarrow> response" where
  "error_reply err = json_reply 500 (JObj [(str ''error'', JStr (message err))])"

text \<open>
  The body of the three generation handlers, which differ in the prompt, the token
  budget, the name of the list in the response and its limit. Everything runs inside
  \<open>try\<close>: building the prompt, the call, and \<open>out.split\<close>, which is not a function when
  the provider's content is not a string.
\<close>

definition generate ::
    "runtime \<Rightarrow> env \<Rightarrow> provider \<Rightarrow> part list \<Rightarrow> nat \<Rightarrow> jsstring \<Rightarrow> nat
       \<Rightarrow> response \<times> fetch_request list" where
  "generate rt e fetch parts maxTokens list_name limit =
     (case template rt parts of
        Inl err \<Rightarrow> (error_reply err, [])
      | Inr prompt \<Rightarrow>
          (case callOpenAI e fetch prompt maxTokens of
             (Inl err, sent) \<Rightarrow> (error_reply err, sent)
           | (Inr out, sent) \<Rightarrow>
               (case out of
                  JStr raw \<Rightarrow>
                    (json_reply 200
                       (JObj [(list_name, JArr (map JStr (parseLines raw limit))),
                              (str ''raw'', JStr raw)]), sent)
                | _ \<Rightarrow> (error_reply (TypeError (str ''out.split is not a function'')), sent))))"

definition generate_title :: "runtime \<Rightarrow> env \<Rightarrow> provider \<Rightarrow> json \<Rightarrow> response \<times> fetch_request list" where
  "generate_title rt e fetch b = generate rt e fetch (title_prompt b) 160 (str ''titles'') 10"

definition generate_name :: "runtime \<Rightarrow> env \<Rightarrow> provider \<Rightarrow> json \<Rightarrow> response \<times> fetch_request list" where
  "generate_name rt e fetch b = generate rt e fetch (name_prompt b) 200 (str ''names'') 15"

definition generate_bio :: "runtime \<Rightarrow> env \<Rightarrow> provider \<Rightarrow> json \<Rightarrow> response \<times> fetch_request list" where
  "generate_bio rt e fetch b = generate rt e fetch (bio_prompt b) 160 (str ''bios'') 5"

subsection \<open>Calculators\<close>

definition tierRates :: "(jsstring \<times> jsnum) list" where
  "tierRates = [(str ''1'', Fin (5 / 2)), (str ''2'', Fin 5), (str ''3'', Fin (25 / 2))]"

text \<open>The properties every object literal inherits from \<open>Object.prototype\<close>.\<close>

definition object_prototype :: "jsstring list" where
  "object_prototype =
     [str ''constructor'', str ''__defineGetter__'', str ''__defineSetter__'',
      str ''hasOwnProperty'', str ''__lookupGetter__'', str ''__lookupSetter__'',
      str ''isPrototypeOf'', str ''propertyIsEnumerable'', str ''toString'',
      str ''valueOf'', str ''__proto__'', str ''toLocaleString'']"

text \<open>
  \<open>table[key]\<close> on an object literal of numbers: an own property, an inherited one (a
  function, or the prototype itself for \<open>__proto__\<close>), or \<open>undefined\<close>.
\<close>

datatype member = Own jsnum | Builtin | Undefined

definition get_member :: "(jsstring \<times> jsnum) list \<Rightarrow> jsstring \<Rightarrow> member" where
  "get_member table k =
     (case map_of table k of
        Some r \<Rightarrow> Own r
      | None \<Rightarrow> if k \<in> set object_prototype then Builtin else Undefined)"

text \<open>\<open>m ?? d\<close> on such a member.\<close>

fun member_or :: "member \<Rightarrow> member \<Rightarrow> member" where
  "member_or Undefined d = d"
| "member_or m d = m"

text \<open>The factor a member is in a product: a function or an object counts as \<open>NaN\<close>.\<close>

fun member_number :: "member \<Rightarrow> jsnum" where
  "member_number (Own r) = r"
| "member_number Builtin = NaN"
| "member_number Undefined = NaN"

text \<open>
  The earnings of the \<open>/calc-subs\<close> handler,
  \<open>Number(subs) * (tierRates[tier] ?? tierRates[1])\<close>, on the number of subscribers
  and the property key of the tier.
\<close>

definition subscriptionEarnings :: "runtime \<Rightarrow> jsnum \<Rightarrow> jsstring \<Rightarrow> jsnum" where
  "subscriptionEarnings rt subs k =
     num_mul rt subs
       (member_number (member_or (get_member tierRates k) (get_member tierRates (str ''1''))))"

text \<open>
  The \<open>/calc-subs\<close> handler. \<open>Number(subs)\<close> and the property key of \<open>tier\<close> can throw;
  the handler is synchronous and has no \<open>try\<close>, so the error goes to Express.
\<close>

definition calc_subs :: "runtime \<Rightarrow> json \<Rightarrow> js_error + response" where
  "calc_subs rt b =
     (let subs = field_or b (str ''subs'') (JNum (Fin 0));
          tier = field_or b (str ''tier'') (JNum (Fin 1))
      in (case to_number rt subs of
            Inl err \<Rightarrow> Inl err
          | Inr n \<Rightarrow>
              (case to_string rt tier of
                 Inl err \<Rightarrow> Inl err
               | Inr k \<Rightarrow>
                   (let earnings = subscriptionEarnings rt n k
                    in Inr (json_reply 200
                          (JObj [(str ''subs'', JNum n), (str ''tier'', tier),
                                 (str ''earnings'', JNum earnings)]))))))"

text \<open>
  The earnings of the \<open>/calc-ads\<close> handler,
  \<open>(Number(viewers) / 1000) * Number(cpm) * Number(adMinutes)\<close>, on the three numbers.
\<close>

definition adEarnings :: "runtime \<Rightarrow> jsnum \<Rightarrow> jsnum \<Rightarrow> jsnum \<Rightarrow> jsnum" where
  "adEarnings rt adMinutes viewers cpm =
     num_mul rt (num_mul rt (div_1000 rt viewers) cpm) adMinutes"

text \<open>The \<open>/calc-ads\<close> handler.\<close>

definition calc_ads :: "runtime \<Rightarrow> json \<Rightarrow> js_error + response" where
  "calc_ads rt b =
     (let adMinutes = field_or b (str ''adMinutes'') (JNum (Fin 0));
          viewers = field_or b (str ''viewers'') (JNum (Fin 0));
          cpm = field_or b (str ''cpm'') (JNum (Fin 3))
      in (case to_number rt viewers of
            Inl err \<Rightarrow> Inl err
          | Inr v \<Rightarrow>
              (case to_number rt cpm of
                 Inl err \<Rightarrow> Inl err
               | Inr c \<Rightarrow>
                   (case to_number rt adMinutes of
                      Inl err \<Rightarrow> Inl err
                    | Inr a \<Rightarrow>
                        (let earnings = adEarnings rt a v c
                         in Inr (json_reply 200
                               (JObj [(str ''adMinutes'', JNum a), (str ''viewers'', JNum v),
                                      (str ''cpm'', JNum c), (str ''earnings'', JNum earnings)])))))))"

subsection \<open>The pipeline\<close>

text \<open>\<open>app.get("/health", (req, res) => res.send("OK"))\<close>\<close>

definition health :: response where
  "health = \<lparr>status = 200, payload = TextBody (str ''OK'')\<rparr>"

definition lift_sync :: "js_error + response \<Rightarrow> outcome \<times> fetch_request list" where
  "lift_sync r = (case r of Inl err \<Rightarrow> (Failed err, []) | Inr resp \<Rightarrow> (Responded resp, []))"

definition lift_async :: "response \<times> fetch_request list \<Rightarrow> outcome \<times> fetch_request list" where
  "lift_async r = (Responded (fst r), snd r)"

text \<open>The route handlers, in the order they are registered.\<close>

definition handle :: "runtime \<Rightarrow> env \<Rightarrow> provider \<Rightarrow> request \<Rightarrow> outcome \<times> fetch_request list" where
  "handle rt e fetch req =
     (case route req of
        GenerateTitle \<Rightarrow> lift_async (generate_title rt e fetch (body req))
      | GenerateName \<Rightarrow> lift_async (generate_name rt e fetch (body req))
      | GenerateBio \<Rightarrow> lift_async (generate_bio rt e fetch (body req))
      | CalcSubs \<Rightarrow> lift_sync (calc_subs rt (body req))
      | CalcAds \<Rightarrow> lift_sync (calc_ads rt (body req))
      | Health \<Rightarrow> (Responded health, [])
      | NoRoute \<Rightarrow> (NotFound, []))"

text \<open>
  A request through the application: the origin policy, then the client
  authentication, then the route handler. The result is how the request ends and the
  requests sent to the provider while it was handled.
\<close>

definition serve :: "runtime \<Rightarrow> env \<Rightarrow> provider \<Rightarrow> request \<Rightarrow> outcome \<times> fetch_request list" where
  "serve rt e fetch req =
     (case origin_callback (allowed e) (origin req) of
        Inl err \<Rightarrow> (Failed err, [])
      | Inr _ \<Rightarrow>
          (case auth e req of
             Some resp \<Rightarrow> (Responded resp, [])
           | None \<Rightarrow> handle rt e fetch req))"

subsection \<open>Values for examples\<close>

text \<open>
  A runtime in which no result needs rounding, and a provider that cannot be reached.
  The examples below use no number that binary64 does not hold exactly.
\<close>

definition exact_runtime :: runtime where
  "exact_runtime = \<lparr>round64 = Fin, print_number = (\<lambda>q. []), string_to_number = (\<lambda>s. NaN)\<rparr>"

definition unreachable :: provider where
  "unreachable = (\<lambda>rq. Rejected (TypeError (str ''fetch failed'')))"

subsection \<open>The shape of a response body\<close>

text \<open>
  The values the specification allows in a response: strings, numbers, and arrays of
  them.
\<close>

fun primitive :: "json \<Rightarrow> bool" where
  "primitive (JStr s) = True"
| "primitive (JNum n) = True"
| "primitive _ = False"

fun plain :: "json \<Rightarrow> bool" where
  "plain (JArr xs) = list_all primitive xs"
| "plain v = primitive v"

text \<open>
  The values the handlers do send, but for the tier that \<open>/calc-subs\<close> echoes: a string,
  a finite number, \<open>null\<close> (in place of a number that is not finite) or an array of
  strings.
\<close>

fun is_string :: "json \<Rightarrow> bool" where
  "is_string (JStr s) = True"
| "is_string _ = False"

fun sendable :: "json \<Rightarrow> bool" where
  "sendable (JStr s) = True"
| "sendable (JNum (Fin q)) = True"
| "sendable (JNum _) = False"
| "sendable JNull = True"
| "sendable (JArr xs) = list_all is_string xs"
| "sendable _ = False"

section \<open>Line parsing\<close>

lemma split_lines_not_Nil: "split_lines s \<noteq> []"
  by (induction s rule: split_lines.induct) (auto split: list.splits)

lemma weave_split_lines: "weave (split_lines s) (line_breaks s) = s"
proof (induction s rule: split_lines.induct)
  case 1
  show ?case by simp
next
  case (2 c)
  show ?case by simp
next
  case (3 c d cs)
  show ?case
  proof (cases "c = LF")
    case True
    with 3 show ?thesis by simp
  next
    case notLF: False
    show ?thesis
    proof (cases "c = CR \<and> d = LF")
      case True
      with notLF 3 show ?thesis by simp
    next
      case False
      obtain p ps where sp: "split_lines (d # cs) = p # ps"
        using split_lines_not_Nil[of "d # cs"] by (cases "split_lines (d # cs)") auto
      have "weave (p # ps) (line_breaks (d # cs)) = d # cs"
        using 3(3)[OF notLF False] sp by simp
      then have "weave ((c # p) # ps) (line_breaks (d # cs)) = c # d # cs"
        by (cases "line_breaks (d # cs)") auto
      with notLF sp show ?thesis by (simp add: False)
    qed
  qed
qed

lemma length_split_lines: "length (split_lines s) = Suc (length (line_breaks s))"
  by (induction s rule: split_lines.induct) (auto split: list.splits simp: split_lines_not_Nil)

lemma line_breaks_shape: "b \<in> set (line_breaks s) \<Longrightarrow> b = [LF] \<or> b = [CR, LF]"
  by (induction s rule: line_breaks.induct) (auto split: if_splits)

lemma split_lines_no_LF: "p \<in> set (split_lines s) \<Longrightarrow> LF \<notin> set p"
  by (induction s arbitrary: p rule: split_lines.induct) (auto split: if_splits list.splits)

lemma trim_decompose:
  "\<exists>a b. s = a @ trim s @ b \<and> (\<forall>c\<in>set a. is_ws c) \<and> (\<forall>c\<in>set b. is_ws c)"
proof -
  let ?t = "dropWhile is_ws s"
  have front: "s = takeWhile is_ws s @ ?t" by simp
  have "rev ?t = takeWhile is_ws (rev ?t) @ dropWhile is_ws (rev ?t)" by simp
  then have "?t = rev (dropWhile is_ws (rev ?t)) @ rev (takeWhile is_ws (rev ?t))"
    by (metis rev_append rev_rev_ident)
  then have rear: "?t = trim s @ rev (takeWhile is_ws (rev ?t))" by (simp add: trim_def)
  have "s = takeWhile is_ws s @ trim s @ rev (takeWhile is_ws (rev ?t))"
    using front rear by metis
  moreover have "\<forall>c\<in>set (takeWhile is_ws s). is_ws c" by (auto dest: set_takeWhileD)
  moreover have "\<forall>c\<in>set (rev (takeWhile is_ws (rev ?t))). is_ws c" by (auto dest: set_takeWhileD)
  ultimately show ?thesis by blast
qed

lemma trim_ends:
  assumes ne: "trim s \<noteq> []"
  shows "\<not> is_ws (hd (trim s)) \<and> \<not> is_ws (last (trim s))"
proof -
  let ?t = "dropWhile is_ws s"
  let ?u = "dropWhile is_ws (rev ?t)"
  have une: "?u \<noteq> []" using ne by (simp add: trim_def)
  have a: "\<not> is_ws (hd ?u)" using une by (rule hd_dropWhile)
  have "last (trim s) = hd ?u" using une by (simp add: trim_def last_rev)
  then have l: "\<not> is_ws (last (trim s))" using a by simp
  have tne: "?t \<noteq> []"
  proof
    assume "?t = []"
    then have "?u = []" by (simp only: rev.simps(1) dropWhile.simps(1))
    with une show False by simp
  qed
  have h: "\<not> is_ws (hd ?t)" using tne by (rule hd_dropWhile)
  have "hd (trim s) = last ?u" using une by (simp add: trim_def hd_rev)
  moreover have "last ?u = last (rev ?t)"
    using une by (metis dropWhile_eq_Nil_conv last_appendR takeWhile_dropWhile_id)
  moreover have "last (rev ?t) = hd ?t" using tne by (simp add: last_rev)
  ultimately show ?thesis using h l by simp
qed

lemma parseLines_entry:
  assumes "l \<in> set (parseLines raw limit)"
  shows "l \<noteq> [] \<and> \<not> is_ws (hd l) \<and> \<not> is_ws (last l) \<and> \<not> (\<forall>c\<in>set l. is_ws c)"
proof -
  from assms have "l \<in> set (filter truthy (map trim (split_lines raw)))"
    unfolding parseLines_def by (rule in_set_takeD)
  then obtain p where l: "l = trim p" and ne: "l \<noteq> []"
    by (auto simp: truthy_def)
  have ends: "\<not> is_ws (hd l) \<and> \<not> is_ws (last l)"
    using trim_ends[of p] l ne by simp
  moreover have "hd l \<in> set l" using ne by simp
  ultimately show ?thesis using ne by blast
qed

lemma parseLines_example:
  "parseLines (str ''a'' @ [LF, LF] @ str ''b'' @ [CR, LF] @ str ''c'') 2 = [str ''a'', str ''b'']"
  by (simp add: parseLines_def str_def LF_def CR_def trim_def is_ws_def truthy_def)

text \<open>
  Claim C3. The line parsing shared by the three generation handlers, for every raw
  string and every limit. The pieces it splits the text into are separated by the
  newline sequences of the text: woven with those separators, each a bare line feed or
  a carriage return and a line feed, the pieces give the text back, and no piece
  holds a line feed. Trimming a piece removes whitespace at its two ends and nothing
  else. The result is the first \<open>limit\<close> of the trimmed pieces that are not empty, in
  their order; it has at most \<open>limit\<close> entries, and no entry is empty, starts or ends
  with whitespace, or is whitespace only. In particular
  \<open>parseLines("a\n\nb\r\nc", 2) = ["a", "b"]\<close>.
\<close>

theorem parseLines_lines:
  "weave (split_lines raw) (line_breaks raw) = raw
   \<and> length (split_lines raw) = Suc (length (line_breaks raw))
   \<and> (\<forall>b\<in>set (line_breaks raw). b = [LF] \<or> b = [CR, LF])
   \<and> (\<forall>p\<in>set (split_lines raw). LF \<notin> set p)
   \<and> (\<forall>p\<in>set (split_lines raw).
         \<exists>a b. p = a @ trim p @ b \<and> (\<forall>c\<in>set a. is_ws c) \<and> (\<forall>c\<in>set b. is_ws c))
   \<and> parseLines raw limit = take limit (filter (\<lambda>l. l \<noteq> []) (map trim (split_lines raw)))
   \<and> length (parseLines raw limit) \<le> limit
   \<and> (\<forall>l\<in>set (parseLines raw limit).
         l \<noteq> [] \<and> \<not> is_ws (hd l) \<and> \<not> is_ws (last l) \<and> \<not> (\<forall>c\<in>set l. is_ws c))
   \<and> parseLines (str ''a'' @ [LF, LF] @ str ''b'' @ [CR, LF] @ str ''c'') 2
       = [str ''a'', str ''b'']"
proof -
  have "truthy = (\<lambda>l. l \<noteq> [])"
    by (simp add: truthy_def fun_eq_iff)
  then have "parseLines raw limit
      = take limit (filter (\<lambda>l. l \<noteq> []) (map trim (split_lines raw)))"
    by (simp add: parseLines_def)
  moreover have "length (parseLines raw limit) \<le> limit"
    by (simp add: parseLines_def)
  ultimately show ?thesis
    using weave_split_lines[of raw] length_split_lines[of raw] line_breaks_shape[of _ raw]
      split_lines_no_LF[of _ raw] trim_decompose parseLines_entry[of _ raw limit]
      parseLines_example
    by blast
qed

theorem parseLines_lines_witness:
  "split_lines ([0x20] @ str ''x'' @ [CR, LF, LF] @ str ''y'' @ [0x09])
     = [[0x20] @ str ''x'', [], str ''y'' @ [0x09]]
   \<and> line_breaks ([0x20] @ str ''x'' @ [CR, LF, LF] @ str ''y'' @ [0x09]) = [[CR, LF], [LF]]
   \<and> weave [[0x20] @ str ''x'', [], str ''y'' @ [0x09]] [[CR, LF], [LF]]
       = [0x20] @ str ''x'' @ [CR, LF, LF] @ str ''y'' @ [0x09]
   \<and> trim ([0x20] @ str ''x'') = str ''x''
   \<and> trim (str ''y'' @ [0x09]) = str ''y''
   \<and> parseLines ([0x20] @ str ''x'' @ [CR, LF, LF] @ str ''y'' @ [0x09]) 5 = [str ''x'', str ''y'']
   \<and> parseLines ([0x20] @ str ''x'' @ [CR, LF, LF] @ str ''y'' @ [0x09]) 1 = [str ''x'']
   \<and> length (parseLines ([0x20] @ str ''x'' @ [CR, LF, LF] @ str ''y'' @ [0x09]) 1) \<le> 1"
  using parseLines_lines[of "[0x20] @ str ''x'' @ [CR, LF, LF] @ str ''y'' @ [0x09]" 1]
  by (simp add: parseLines_def str_def LF_def CR_def trim_def is_ws_def truthy_def)

section \<open>The two gates\<close>

lemma unauthorized_eq:
  "unauthorized = \<lparr>status = 401,
     payload = JsonBody (JObj [(str ''error'', JStr (str ''Missing or invalid x-api-key header''))])\<rparr>"
  by (simp add: unauthorized_def json_reply_def)

lemma auth_open: "falsy (CLIENT_API_KEY e) \<Longrightarrow> auth e req = None"
  by (simp add: auth_def)

lemma auth_reject:
  "CLIENT_API_KEY e = Some k \<Longrightarrow> k \<noteq> [] \<Longrightarrow> x_api_key req \<noteq> Some k \<Longrightarrow> auth e req = Some unauthorized"
  by (simp add: auth_def truthy_def Let_def)

lemma auth_accept:
  "CLIENT_API_KEY e = Some k \<Longrightarrow> k \<noteq> [] \<Longrightarrow> x_api_key req = Some k \<Longrightarrow> auth e req = None"
  by (simp add: auth_def truthy_def Let_def)

lemma serve_stopped:
  "auth e req = Some r \<Longrightarrow>
   serve rt e fetch req =
     (case origin_callback (allowed e) (origin req) of
        Inl err \<Rightarrow> (Failed err, [])
      | Inr _ \<Rightarrow> (Responded r, []))"
  by (simp add: serve_def split: sum.splits)

lemma serve_passed:
  "auth e req = None \<Longrightarrow>
   serve rt e fetch req =
     (case origin_callback (allowed e) (origin req) of
        Inl err \<Rightarrow> (Failed err, [])
      | Inr _ \<Rightarrow> handle rt e fetch req)"
  by (simp add: serve_def split: sum.splits)


lemma serve_failed:
  "origin_callback (allowed e) (origin req) = Inl err \<Longrightarrow> serve rt e fetch req = (Failed err, [])"
  by (simp add: serve_def)

lemma origin_callback_cases:
  "origin_callback al og = Inr True \<or> origin_callback al og = Inl (Error (str ''CORS not allowed''))"
  by (simp add: origin_callback_def split: option.splits)

text \<open>
  Claim C1. The shared-secret gate. When no \<open>CLIENT_API_KEY\<close> is configured (the variable
  is absent, or empty, which the code reads as absent), every request passes the gate,
  whatever its headers, and goes on to its route handler. When a secret is configured,
  a request whose \<open>x-api-key\<close> header is missing or differs from the secret is answered
  with status 401 and the JSON body \<open>{"error": "Missing or invalid x-api-key header"}\<close>,
  and nothing is sent to the provider: the route handler does not run. A request whose
  header equals the secret passes the gate. (The origin policy runs first; a request it
  rejects ends there.)
\<close>

theorem auth_gate:
  "((CLIENT_API_KEY e = None \<or> CLIENT_API_KEY e = Some []) \<longrightarrow>
      auth e req = None
      \<and> serve rt e fetch req =
          (case origin_callback (allowed e) (origin req) of
             Inl err \<Rightarrow> (Failed err, [])
           | Inr _ \<Rightarrow> handle rt e fetch req))
   \<and> (CLIENT_API_KEY e = Some k \<and> k \<noteq> [] \<and> x_api_key req \<noteq> Some k \<longrightarrow>
      auth e req = Some unauthorized
      \<and> serve rt e fetch req =
          (case origin_callback (allowed e) (origin req) of
             Inl err \<Rightarrow> (Failed err, [])
           | Inr _ \<Rightarrow> (Responded unauthorized, [])))
   \<and> (CLIENT_API_KEY e = Some k \<and> k \<noteq> [] \<and> x_api_key req = Some k \<longrightarrow>
      auth e req = None
      \<and> serve rt e fetch req =
          (case origin_callback (allowed e) (origin req) of
             Inl err \<Rightarrow> (Failed err, [])
           | Inr _ \<Rightarrow> handle rt e fetch req))
   \<and> unauthorized = \<lparr>status = 401,
        payload = JsonBody (JObj [(str ''error'', JStr (str ''Missing or invalid x-api-key header''))])\<rparr>"
proof -
  have a: "(CLIENT_API_KEY e = None \<or> CLIENT_API_KEY e = Some []) \<Longrightarrow> auth e req = None"
    by (rule auth_open) (auto simp: truthy_def)
  show ?thesis
    using a auth_reject[of e k req] auth_accept[of e k req]
      serve_stopped[of e req unauthorized rt fetch] serve_passed[of e req rt fetch] unauthorized_eq
    by blast
qed

theorem auth_gate_witness:
  "auth \<lparr>ALLOWED_ORIGINS = None, CLIENT_API_KEY = None, OPENAI_API_KEY = None\<rparr>
        \<lparr>route = CalcAds, origin = None, x_api_key = None, body = JObj []\<rparr> = None
   \<and> auth \<lparr>ALLOWED_ORIGINS = None, CLIENT_API_KEY = Some (str ''s3cret''), OPENAI_API_KEY = None\<rparr>
        \<lparr>route = CalcAds, origin = None, x_api_key = Some (str ''guess''), body = JObj []\<rparr>
       = Some unauthorized
   \<and> serve exact_runtime
        \<lparr>ALLOWED_ORIGINS = None, CLIENT_API_KEY = Some (str ''s3cret''), OPENAI_API_KEY = None\<rparr>
        unreachable
        \<lparr>route = CalcAds, origin = None, x_api_key = Some (str ''guess''), body = JObj []\<rparr>
       = (Responded unauthorized, [])
   \<and> auth \<lparr>ALLOWED_ORIGINS = None, CLIENT_API_KEY = Some (str ''s3cret''), OPENAI_API_KEY = None\<rparr>
        \<lparr>route = CalcAds, origin = None, x_api_key = Some (str ''s3cret''), body = JObj []\<rparr> = None"
  using
    auth_gate[of "\<lparr>ALLOWED_ORIGINS = None, CLIENT_API_KEY = None, OPENAI_API_KEY = None\<rparr>"
      "\<lparr>route = CalcAds, origin = None, x_api_key = None, body = JObj []\<rparr>"
      exact_runtime unreachable "str ''s3cret''"]
    auth_gate[of "\<lparr>ALLOWED_ORIGINS = None, CLIENT_API_KEY = Some (str ''s3cret''), OPENAI_API_KEY = None\<rparr>"
      "\<lparr>route = CalcAds, origin = None, x_api_key = Some (str ''guess''), body = JObj []\<rparr>"
      exact_runtime unreachable "str ''s3cret''"]
    auth_gate[of "\<lparr>ALLOWED_ORIGINS = None, CLIENT_API_KEY = Some (str ''s3cret''), OPENAI_API_KEY = None\<rparr>"
      "\<lparr>route = CalcAds, origin = None, x_api_key = Some (str ''s3cret''), body = JObj []\<rparr>"
      exact_runtime unreachable "str ''s3cret''"]
  by (simp add: str_def allowed_def origin_callback_def)




text \<open>
  Claim C6, as the claim states it, fails for a request that carries an origin header
  with an empty value: the callback tests \<open>!origin\<close>, so the empty origin is allowed
  although an allow-list is configured and the origin is not a member of it.
\<close>

theorem origin_empty_allowed:
  "allowed \<lparr>ALLOWED_ORIGINS = Some (str ''https://a.example''), CLIENT_API_KEY = None,
            OPENAI_API_KEY = None\<rparr> = Some [str ''https://a.example'']
   \<and> [] \<notin> set [str ''https://a.example'']
   \<and> origin_callback
        (allowed \<lparr>ALLOWED_ORIGINS = Some (str ''https://a.example''), CLIENT_API_KEY = None,
                  OPENAI_API_KEY = None\<rparr>) (Some []) = Inr True"
  by (simp add: allowed_def origin_callback_def truthy_def str_def trim_def is_ws_def)

text \<open>
  Claim C6, amended. A request carrying no origin header, or an empty one, is always
  allowed. A request carrying any other origin is allowed if and only if no allow-list
  is configured (\<open>ALLOWED_ORIGINS\<close> is absent or empty) or the origin is a member of the
  allow-list, which holds the trimmed pieces of \<open>ALLOWED_ORIGINS\<close> between its commas.
  Otherwise the request fails with the error \<open>CORS not allowed\<close> before the shared-secret
  gate and any handler: the application gives no response and nothing is sent to the
  provider.
\<close>

theorem origin_policy:
  "(origin_callback (allowed e) (origin req) = Inr True) =
     (origin req = None \<or> origin req = Some [] \<or> allowed e = None
      \<or> (\<exists>list og. allowed e = Some list \<and> origin req = Some og \<and> og \<in> set list))
   \<and> (origin_callback (allowed e) (origin req) \<noteq> Inr True \<longrightarrow>
        origin_callback (allowed e) (origin req) = Inl (Error (str ''CORS not allowed''))
        \<and> serve rt e fetch req = (Failed (Error (str ''CORS not allowed'')), []))
   \<and> (allowed e = None) = (ALLOWED_ORIGINS e = None \<or> ALLOWED_ORIGINS e = Some [])
   \<and> (ALLOWED_ORIGINS e = Some s \<and> s \<noteq> [] \<longrightarrow> allowed e = Some (map trim (split_on 0x2C s)))"
proof -
  have 1: "(origin_callback (allowed e) (origin req) = Inr True) =
     (origin req = None \<or> origin req = Some [] \<or> allowed e = None
      \<or> (\<exists>list og. allowed e = Some list \<and> origin req = Some og \<and> og \<in> set list))"
    by (auto simp: origin_callback_def truthy_def split: option.splits)
  have 2: "origin_callback (allowed e) (origin req) \<noteq> Inr True \<longrightarrow>
        origin_callback (allowed e) (origin req) = Inl (Error (str ''CORS not allowed''))
        \<and> serve rt e fetch req = (Failed (Error (str ''CORS not allowed'')), [])"
    using origin_callback_cases[of "allowed e" "origin req"]
      serve_failed[of e req "Error (str ''CORS not allowed'')" rt fetch] by blast
  have 3: "(allowed e = None) = (ALLOWED_ORIGINS e = None \<or> ALLOWED_ORIGINS e = Some [])"
    by (auto simp: allowed_def truthy_def split: option.splits)
  have 4: "ALLOWED_ORIGINS e = Some s \<and> s \<noteq> [] \<longrightarrow> allowed e = Some (map trim (split_on 0x2C s))"
    by (simp add: allowed_def truthy_def)
  from 1 2 3 4 show ?thesis by blast
qed

theorem origin_policy_witness:
  "allowed \<lparr>ALLOWED_ORIGINS = Some (str ''https://a.example, https://b.example''),
            CLIENT_API_KEY = None, OPENAI_API_KEY = None\<rparr>
     = Some [str ''https://a.example'', str ''https://b.example'']
   \<and> origin_callback (Some [str ''https://a.example'', str ''https://b.example''])
        (Some (str ''https://b.example'')) = Inr True
   \<and> origin_callback (Some [str ''https://a.example'', str ''https://b.example''])
        (Some (str ''https://c.example'')) = Inl (Error (str ''CORS not allowed''))
   \<and> serve exact_runtime
        \<lparr>ALLOWED_ORIGINS = Some (str ''https://a.example, https://b.example''),
         CLIENT_API_KEY = None, OPENAI_API_KEY = None\<rparr>
        unreachable
        \<lparr>route = CalcAds, origin = Some (str ''https://c.example''), x_api_key = None, body = JObj []\<rparr>
     = (Failed (Error (str ''CORS not allowed'')), [])"
  using origin_policy[of
        "\<lparr>ALLOWED_ORIGINS = Some (str ''https://a.example, https://b.example''),
         CLIENT_API_KEY = None, OPENAI_API_KEY = None\<rparr>"
        "\<lparr>route = CalcAds, origin = Some (str ''https://c.example''), x_api_key = None, body = JObj []\<rparr>"
        exact_runtime unreachable "str ''https://a.example, https://b.example''"]
  by (simp add: allowed_def origin_callback_def truthy_def str_def trim_def is_ws_def)

text \<open>
  Claim C10. A setting that is the empty string behaves as an absent one, since both
  reads test truthiness. With \<open>CLIENT_API_KEY\<close> empty the shared-secret gate lets every
  request pass, also one with no \<open>x-api-key\<close> header. With \<open>ALLOWED_ORIGINS\<close> empty there
  is no allow-list (not the list holding only the empty origin), and every origin is
  allowed. With both empty every request reaches its route handler.
\<close>

theorem empty_setting_is_absent:
  "auth (e\<lparr>CLIENT_API_KEY := Some []\<rparr>) req = None
   \<and> auth (e\<lparr>CLIENT_API_KEY := Some []\<rparr>) (req\<lparr>x_api_key := None\<rparr>) = None
   \<and> allowed (e\<lparr>ALLOWED_ORIGINS := Some []\<rparr>) = None
   \<and> allowed (e\<lparr>ALLOWED_ORIGINS := Some []\<rparr>) \<noteq> Some [[]]
   \<and> origin_callback (allowed (e\<lparr>ALLOWED_ORIGINS := Some []\<rparr>)) og = Inr True
   \<and> serve rt (e\<lparr>ALLOWED_ORIGINS := Some [], CLIENT_API_KEY := Some []\<rparr>) fetch req
       = handle rt (e\<lparr>ALLOWED_ORIGINS := Some [], CLIENT_API_KEY := Some []\<rparr>) fetch req"
  by (simp add: auth_def allowed_def origin_callback_def truthy_def serve_def)

theorem empty_setting_is_absent_witness:
  "serve exact_runtime \<lparr>ALLOWED_ORIGINS = Some [], CLIENT_API_KEY = Some [], OPENAI_API_KEY = None\<rparr>
     unreachable
     \<lparr>route = Health, origin = Some (str ''https://c.example''), x_api_key = None, body = JObj []\<rparr>
   = (Responded health, [])"
  using empty_setting_is_absent[of
     "\<lparr>ALLOWED_ORIGINS = Some [], CLIENT_API_KEY = Some [], OPENAI_API_KEY = None\<rparr>"
     "\<lparr>route = Health, origin = Some (str ''https://c.example''), x_api_key = None, body = JObj []\<rparr>"
     "Some (str ''https://c.example'')" exact_runtime unreachable]
  by (simp add: handle_def)

section \<open>The call to the provider\<close>

lemma callOpenAI_no_key:
  "OPENAI_API_KEY e = None \<or> OPENAI_API_KEY e = Some [] \<Longrightarrow>
   callOpenAI e fetch prompt n = (Inl (Error (str ''OPENAI_API_KEY missing in env'')), [])"
  by (auto simp: callOpenAI_def truthy_def)

lemma callOpenAI_resolved:
  assumes "OPENAI_API_KEY e = Some key" "key \<noteq> []"
    and "fetch (chat_request key prompt n) = Resolved st reply parsed"
  shows "callOpenAI e fetch prompt n =
     ((if \<not> ok st then Inl (Error (str ''OpenAI error '' @ digits st @ str '': '' @ reply))
       else (case parsed of
               Inl err \<Rightarrow> Inl err
             | Inr j \<Rightarrow>
                 if j = JNull
                 then Inl (TypeError (str ''Cannot read properties of null (reading '' @ [0x27]
                                  @ str ''choices'' @ [0x27] @ str '')''))
                 else Inr (nullish_or (first_choice_content j) (JStr [])))),
      [chat_request key prompt n])"
  using assms by (simp add: callOpenAI_def truthy_def Let_def split: sum.splits)

lemma callOpenAI_sent: "length (snd (callOpenAI e fetch prompt n)) \<le> 1"
  by (simp add: callOpenAI_def Let_def split: option.splits fetch_result.splits sum.splits)

lemma nullish_or_missing: "v = None \<or> v = Some JNull \<Longrightarrow> nullish_or v d = d"
  by auto

lemma nullish_or_present: "c \<noteq> JNull \<Longrightarrow> nullish_or (Some c) d = c"
  by (cases c) auto

lemma first_choice_content_shape:
  assumes "map_of props (str ''choices'') = Some (JArr (JObj ch # others))"
    and "map_of ch (str ''message'') = Some (JObj msg)"
  shows "first_choice_content (JObj props) = map_of msg (str ''content'')"
  using assms by (simp add: first_choice_content_def)

lemma first_choice_content_missing:
  "map_of props (str ''choices'') = None \<Longrightarrow> first_choice_content (JObj props) = None"
  "map_of props (str ''choices'') = Some (JArr []) \<Longrightarrow> first_choice_content (JObj props) = None"
  "map_of props (str ''choices'') = Some (JArr (JObj ch # others)) \<Longrightarrow>
     map_of ch (str ''message'') = None \<Longrightarrow> first_choice_content (JObj props) = None"
  by (simp_all add: first_choice_content_def)

text \<open>
  The contract of \<open>callOpenAI(prompt, maxTokens)\<close>, up to the one case below. It throws
  when no \<open>OPENAI_API_KEY\<close> is configured (absent or empty), before anything is sent.
  When the provider answers with a status outside 200 to 299, it throws an error whose
  message is \<open>OpenAI error\<close>, the status in decimal, a colon and the text of the response
  body. When the provider answers with a success status and a JSON body other than
  \<open>null\<close>, it does not throw: it returns the content of the message of the first choice,
  or the empty string when that field is missing or \<open>null\<close>, as when there is no
  \<open>choices\<close> field, no first choice or no \<open>message\<close> in it. In each case one request is
  sent.
\<close>

theorem callOpenAI_contract:
  "(OPENAI_API_KEY e = None \<or> OPENAI_API_KEY e = Some [] \<longrightarrow>
      callOpenAI e fetch prompt n = (Inl (Error (str ''OPENAI_API_KEY missing in env'')), []))
   \<and> (OPENAI_API_KEY e = Some key \<and> key \<noteq> []
        \<and> fetch (chat_request key prompt n) = Resolved st reply parsed \<longrightarrow>
      (\<not> (200 \<le> st \<and> st \<le> 299) \<longrightarrow>
         callOpenAI e fetch prompt n =
           (Inl (Error (str ''OpenAI error '' @ digits st @ str '': '' @ reply)),
            [chat_request key prompt n]))
      \<and> (200 \<le> st \<and> st \<le> 299 \<and> parsed = Inr j \<and> j \<noteq> JNull \<longrightarrow>
         (\<exists>v. callOpenAI e fetch prompt n = (Inr v, [chat_request key prompt n]))
         \<and> (first_choice_content j = Some c \<and> c \<noteq> JNull \<longrightarrow>
              callOpenAI e fetch prompt n = (Inr c, [chat_request key prompt n]))
         \<and> (first_choice_content j = None \<or> first_choice_content j = Some JNull \<longrightarrow>
              callOpenAI e fetch prompt n = (Inr (JStr []), [chat_request key prompt n]))))
   \<and> (map_of props (str ''choices'') = Some (JArr (JObj ch # others))
        \<and> map_of ch (str ''message'') = Some (JObj msg) \<longrightarrow>
      first_choice_content (JObj props) = map_of msg (str ''content''))
   \<and> (map_of props (str ''choices'') = None \<longrightarrow> first_choice_content (JObj props) = None)
   \<and> (map_of props (str ''choices'') = Some (JArr []) \<longrightarrow>
      first_choice_content (JObj props) = None)
   \<and> (map_of props (str ''choices'') = Some (JArr (JObj ch # others))
        \<and> map_of ch (str ''message'') = None \<longrightarrow>
      first_choice_content (JObj props) = None)"
proof -
  have nokey: "OPENAI_API_KEY e = None \<or> OPENAI_API_KEY e = Some [] \<longrightarrow>
      callOpenAI e fetch prompt n = (Inl (Error (str ''OPENAI_API_KEY missing in env'')), [])"
    using callOpenAI_no_key[of e fetch prompt n] by blast
  have answered: "OPENAI_API_KEY e = Some key \<and> key \<noteq> []
        \<and> fetch (chat_request key prompt n) = Resolved st reply parsed \<longrightarrow>
      (\<not> (200 \<le> st \<and> st \<le> 299) \<longrightarrow>
         callOpenAI e fetch prompt n =
           (Inl (Error (str ''OpenAI error '' @ digits st @ str '': '' @ reply)),
            [chat_request key prompt n]))
      \<and> (200 \<le> st \<and> st \<le> 299 \<and> parsed = Inr j \<and> j \<noteq> JNull \<longrightarrow>
         (\<exists>v. callOpenAI e fetch prompt n = (Inr v, [chat_request key prompt n]))
         \<and> (first_choice_content j = Some c \<and> c \<noteq> JNull \<longrightarrow>
              callOpenAI e fetch prompt n = (Inr c, [chat_request key prompt n]))
         \<and> (first_choice_content j = None \<or> first_choice_content j = Some JNull \<longrightarrow>
              callOpenAI e fetch prompt n = (Inr (JStr []), [chat_request key prompt n])))"
  proof (intro impI, elim conjE)
    assume k: "OPENAI_API_KEY e = Some key" "key \<noteq> []"
      and f: "fetch (chat_request key prompt n) = Resolved st reply parsed"
    have r: "callOpenAI e fetch prompt n =
     ((if \<not> ok st then Inl (Error (str ''OpenAI error '' @ digits st @ str '': '' @ reply))
       else (case parsed of
               Inl err \<Rightarrow> Inl err
             | Inr j \<Rightarrow>
                 if j = JNull
                 then Inl (TypeError (str ''Cannot read properties of null (reading '' @ [0x27]
                                  @ str ''choices'' @ [0x27] @ str '')''))
                 else Inr (nullish_or (first_choice_content j) (JStr [])))),
      [chat_request key prompt n])"
      using k f by (rule callOpenAI_resolved)
    show "(\<not> (200 \<le> st \<and> st \<le> 299) \<longrightarrow>
         callOpenAI e fetch prompt n =
           (Inl (Error (str ''OpenAI error '' @ digits st @ str '': '' @ reply)),
            [chat_request key prompt n]))
      \<and> (200 \<le> st \<and> st \<le> 299 \<and> parsed = Inr j \<and> j \<noteq> JNull \<longrightarrow>
         (\<exists>v. callOpenAI e fetch prompt n = (Inr v, [chat_request key prompt n]))
         \<and> (first_choice_content j = Some c \<and> c \<noteq> JNull \<longrightarrow>
              callOpenAI e fetch prompt n = (Inr c, [chat_request key prompt n]))
         \<and> (first_choice_content j = None \<or> first_choice_content j = Some JNull \<longrightarrow>
              callOpenAI e fetch prompt n = (Inr (JStr []), [chat_request key prompt n])))"
      using r nullish_or_present[of c "JStr []"]
        nullish_or_missing[of "first_choice_content j" "JStr []"]
      by (auto simp: ok_def)
  qed
  show ?thesis
    using nokey answered first_choice_content_shape[of props ch others msg]
      first_choice_content_missing[of props] first_choice_content_missing(3)[of props ch others]
    by blast
qed

theorem callOpenAI_contract_witness:
  "callOpenAI \<lparr>ALLOWED_ORIGINS = None, CLIENT_API_KEY = None, OPENAI_API_KEY = None\<rparr>
      unreachable (str ''hi'') 160
     = (Inl (Error (str ''OPENAI_API_KEY missing in env'')), [])
   \<and> callOpenAI \<lparr>ALLOWED_ORIGINS = None, CLIENT_API_KEY = None, OPENAI_API_KEY = Some (str ''sk'')\<rparr>
      (\<lambda>rq. Resolved 429 (str ''slow down'') (Inl (SyntaxError [])))
      (str ''hi'') 160
     = (Inl (Error (str ''OpenAI error 429: slow down'')), [chat_request (str ''sk'') (str ''hi'') 160])
   \<and> callOpenAI \<lparr>ALLOWED_ORIGINS = None, CLIENT_API_KEY = None, OPENAI_API_KEY = Some (str ''sk'')\<rparr>
      (\<lambda>rq. Resolved 200 [] (Inr (JObj [(str ''choices'',
          JArr [JObj [(str ''message'', JObj [(str ''content'', JStr (str ''one''))])]])])))
      (str ''hi'') 160
     = (Inr (JStr (str ''one'')), [chat_request (str ''sk'') (str ''hi'') 160])
   \<and> callOpenAI \<lparr>ALLOWED_ORIGINS = None, CLIENT_API_KEY = None, OPENAI_API_KEY = Some (str ''sk'')\<rparr>
      (\<lambda>rq. Resolved 200 [] (Inr (JObj [(str ''choices'', JArr [])])))
      (str ''hi'') 160
     = (Inr (JStr []), [chat_request (str ''sk'') (str ''hi'') 160])"
  using
    callOpenAI_contract[where e = "\<lparr>ALLOWED_ORIGINS = None, CLIENT_API_KEY = None, OPENAI_API_KEY = None\<rparr>"
      and fetch = unreachable and prompt = "str ''hi''" and n = 160]
    callOpenAI_contract[where
      e = "\<lparr>ALLOWED_ORIGINS = None, CLIENT_API_KEY = None, OPENAI_API_KEY = Some (str ''sk'')\<rparr>"
      and key = "str ''sk''"
      and fetch = "\<lambda>rq. Resolved 429 (str ''slow down'') (Inl (SyntaxError []))"
      and prompt = "str ''hi''" and n = 160 and st = 429 and reply = "str ''slow down''"
      and parsed = "Inl (SyntaxError [])"]
    callOpenAI_contract[where
      e = "\<lparr>ALLOWED_ORIGINS = None, CLIENT_API_KEY = None, OPENAI_API_KEY = Some (str ''sk'')\<rparr>"
      and key = "str ''sk''"
      and fetch = "\<lambda>rq. Resolved 200 [] (Inr (JObj [(str ''choices'',
          JArr [JObj [(str ''message'', JObj [(str ''content'', JStr (str ''one''))])]])]))"
      and prompt = "str ''hi''" and n = 160 and st = 200 and reply = "[]"
      and parsed = "Inr (JObj [(str ''choices'',
          JArr [JObj [(str ''message'', JObj [(str ''content'', JStr (str ''one''))])]])])"
      and j = "JObj [(str ''choices'',
          JArr [JObj [(str ''message'', JObj [(str ''content'', JStr (str ''one''))])]])]"
      and c = "JStr (str ''one'')"]
    callOpenAI_contract[where
      e = "\<lparr>ALLOWED_ORIGINS = None, CLIENT_API_KEY = None, OPENAI_API_KEY = Some (str ''sk'')\<rparr>"
      and key = "str ''sk''"
      and fetch = "\<lambda>rq. Resolved 200 [] (Inr (JObj [(str ''choices'', JArr [])]))"
      and prompt = "str ''hi''" and n = 160 and st = 200 and reply = "[]"
      and parsed = "Inr (JObj [(str ''choices'', JArr [])])"
      and j = "JObj [(str ''choices'', JArr [])]"]
  by (simp add: str_def first_choice_content_def digits.simps)

lemma callOpenAI_null_body:
  "OPENAI_API_KEY e = Some key \<Longrightarrow> key \<noteq> [] \<Longrightarrow>
   fetch (chat_request key prompt n) = Resolved 200 reply (Inr JNull) \<Longrightarrow>
   \<exists>m. fst (callOpenAI e fetch prompt n) = Inl (TypeError m)"
  by (simp add: callOpenAI_def truthy_def ok_def)

text \<open>
  Claim C7 says that \<open>callOpenAI\<close> throws without a credential, throws with the status
  and the body text on a non-success status, and on success returns the content of the
  first choice, or the empty string when that field is missing, never raising for a
  response that is well formed but empty. The code reads the field with
  \<open>j.choices?.[0]?.message?.content ?? ""\<close>: every step is guarded but the first. When
  the provider answers with status 200 and the JSON body \<open>null\<close>, a body in which the
  field is missing, \<open>j.choices\<close> throws a TypeError and nothing is returned, where the
  empty object as body gives the empty string. The rest of the claim holds, as shown
  above.
\<close>

theorem callOpenAI_null_response:
  "callOpenAI \<lparr>ALLOWED_ORIGINS = None, CLIENT_API_KEY = None, OPENAI_API_KEY = Some (str ''sk'')\<rparr>
      (\<lambda>rq. Resolved 200 (str ''null'') (Inr JNull)) prompt n
     = (Inl (TypeError (str ''Cannot read properties of null (reading '' @ [0x27]
                          @ str ''choices'' @ [0x27] @ str '')'')),
        [chat_request (str ''sk'') prompt n])
   \<and> callOpenAI \<lparr>ALLOWED_ORIGINS = None, CLIENT_API_KEY = None, OPENAI_API_KEY = Some (str ''sk'')\<rparr>
      (\<lambda>rq. Resolved 200 (str ''{}'') (Inr (JObj []))) prompt n
     = (Inr (JStr []), [chat_request (str ''sk'') prompt n])"
  by (simp add: callOpenAI_def truthy_def ok_def Let_def first_choice_content_def str_def)

section \<open>Generation handlers\<close>

lemma error_reply_eq:
  "error_reply err = \<lparr>status = 500, payload = JsonBody (JObj [(str ''error'', JStr (message err))])\<rparr>"
  by (simp add: error_reply_def json_reply_def)

lemma generate_sent: "length (snd (generate rt e fetch parts budget list_name limit)) \<le> 1"
proof (cases "template rt parts")
  case (Inl err)
  then show ?thesis by (simp add: generate_def)
next
  case (Inr prompt)
  obtain r sent where c: "callOpenAI e fetch prompt budget = (r, sent)"
    by (cases "callOpenAI e fetch prompt budget")
  have "length sent \<le> 1" using callOpenAI_sent[of e fetch prompt budget] c by simp
  then show ?thesis using Inr c
    by (simp add: generate_def split: sum.splits json.splits)
qed

lemma generate_failure:
  "template rt parts = Inr prompt \<Longrightarrow> callOpenAI e fetch prompt budget = (Inl err, sent) \<Longrightarrow>
   generate rt e fetch parts budget list_name limit = (error_reply err, sent)"
  by (simp add: generate_def)

lemma serve_generation:
  assumes "origin_callback (allowed e) (origin req) = Inr True" "auth e req = None"
  shows "route req = GenerateTitle \<Longrightarrow>
           serve rt e fetch req = lift_async (generate rt e fetch (title_prompt (body req)) 160 (str ''titles'') 10)"
    and "route req = GenerateName \<Longrightarrow>
           serve rt e fetch req = lift_async (generate rt e fetch (name_prompt (body req)) 200 (str ''names'') 15)"
    and "route req = GenerateBio \<Longrightarrow>
           serve rt e fetch req = lift_async (generate rt e fetch (bio_prompt (body req)) 160 (str ''bios'') 5)"
  using assms
  by (simp_all add: serve_def handle_def generate_title_def generate_name_def generate_bio_def)

lemma template_name_prompt_empty:
  "template rt (name_prompt (JObj []))
     = Inr (str ''Generate 15 creative Twitch usernames. Keywords: . Style: short. One per line.'')"
  by (simp add: name_prompt_def field_or_def str_def)

text \<open>
  Claim C8. For each of the three generation endpoints, on a request that has passed the
  two gates: the request always ends in a response of the handler (no error leaves the
  handler, so the process does not crash) and at most one request is sent to the
  provider (nothing is retried). Whatever \<open>callOpenAI\<close> throws on the prompt of the
  endpoint is caught in the handler and answered with status 500 and the JSON body
  \<open>{"error": message}\<close>; the error of the missing credential is one of them, and then
  nothing is sent.
\<close>

theorem generation_failure_is_500:
  assumes gates: "origin_callback (allowed e) (origin req) = Inr True" "auth e req = None"
    and handler:
      "(route req = GenerateTitle \<and> parts = title_prompt (body req) \<and> budget = 160)
       \<or> (route req = GenerateName \<and> parts = name_prompt (body req) \<and> budget = 200)
       \<or> (route req = GenerateBio \<and> parts = bio_prompt (body req) \<and> budget = 160)"
  shows "(\<exists>resp sent. serve rt e fetch req = (Responded resp, sent) \<and> length sent \<le> 1)
     \<and> (template rt parts = Inr prompt \<and> callOpenAI e fetch prompt budget = (Inl err, sent) \<longrightarrow>
          serve rt e fetch req =
            (Responded \<lparr>status = 500,
               payload = JsonBody (JObj [(str ''error'', JStr (message err))])\<rparr>, sent)
          \<and> length sent \<le> 1)
     \<and> (template rt parts = Inr prompt
          \<and> (OPENAI_API_KEY e = None \<or> OPENAI_API_KEY e = Some []) \<longrightarrow>
          serve rt e fetch req =
            (Responded \<lparr>status = 500,
               payload = JsonBody (JObj [(str ''error'', JStr (str ''OPENAI_API_KEY missing in env''))])\<rparr>,
             []))"
proof -
  obtain list_name limit where
    s: "serve rt e fetch req = lift_async (generate rt e fetch parts budget list_name limit)"
    using handler serve_generation[OF gates, of rt fetch] by blast
  have one: "\<exists>resp sent. serve rt e fetch req = (Responded resp, sent) \<and> length sent \<le> 1"
    using s generate_sent[of rt e fetch parts budget list_name limit]
    by (simp add: lift_async_def)
  have caught: "template rt parts = Inr prompt \<and> callOpenAI e fetch prompt budget = (Inl err, sent) \<longrightarrow>
          serve rt e fetch req =
            (Responded \<lparr>status = 500,
               payload = JsonBody (JObj [(str ''error'', JStr (message err))])\<rparr>, sent)
          \<and> length sent \<le> 1"
  proof (intro impI, elim conjE)
    assume t: "template rt parts = Inr prompt"
      and c: "callOpenAI e fetch prompt budget = (Inl err, sent)"
    have "generate rt e fetch parts budget list_name limit = (error_reply err, sent)"
      using t c by (rule generate_failure)
    moreover have "length sent \<le> 1"
      using callOpenAI_sent[of e fetch prompt budget] c by simp
    ultimately show "serve rt e fetch req =
            (Responded \<lparr>status = 500,
               payload = JsonBody (JObj [(str ''error'', JStr (message err))])\<rparr>, sent)
          \<and> length sent \<le> 1"
      using s by (simp add: lift_async_def error_reply_eq)
  qed
  have nokey: "template rt parts = Inr prompt
          \<and> (OPENAI_API_KEY e = None \<or> OPENAI_API_KEY e = Some []) \<longrightarrow>
          serve rt e fetch req =
            (Responded \<lparr>status = 500,
               payload = JsonBody (JObj [(str ''error'', JStr (str ''OPENAI_API_KEY missing in env''))])\<rparr>,
             [])"
  proof (intro impI, elim conjE)
    assume t: "template rt parts = Inr prompt"
      and k: "OPENAI_API_KEY e = None \<or> OPENAI_API_KEY e = Some []"
    have c: "callOpenAI e fetch prompt budget
        = (Inl (Error (str ''OPENAI_API_KEY missing in env'')), [])"
      using k by (rule callOpenAI_no_key)
    have "generate rt e fetch parts budget list_name limit
        = (error_reply (Error (str ''OPENAI_API_KEY missing in env'')), [])"
      using t c by (rule generate_failure)
    then show "serve rt e fetch req =
            (Responded \<lparr>status = 500,
               payload = JsonBody (JObj [(str ''error'', JStr (str ''OPENAI_API_KEY missing in env''))])\<rparr>,
             [])"
      using s by (simp add: lift_async_def error_reply_eq)
  qed
  from one caught nokey show ?thesis by blast
qed

theorem generation_failure_is_500_witness:
  "serve exact_runtime
     \<lparr>ALLOWED_ORIGINS = None, CLIENT_API_KEY = None, OPENAI_API_KEY = Some (str ''sk'')\<rparr>
     (\<lambda>rq. Resolved 503 (str ''busy'') (Inl (SyntaxError [])))
     \<lparr>route = GenerateName, origin = None, x_api_key = None, body = JObj []\<rparr>
   = (Responded \<lparr>status = 500,
        payload = JsonBody (JObj [(str ''error'', JStr (str ''OpenAI error 503: busy''))])\<rparr>,
      [chat_request (str ''sk'')
         (str ''Generate 15 creative Twitch usernames. Keywords: . Style: short. One per line.'') 200])
   \<and> serve exact_runtime
     \<lparr>ALLOWED_ORIGINS = None, CLIENT_API_KEY = None, OPENAI_API_KEY = None\<rparr>
     unreachable
     \<lparr>route = GenerateName, origin = None, x_api_key = None, body = JObj []\<rparr>
   = (Responded \<lparr>status = 500,
        payload = JsonBody (JObj [(str ''error'', JStr (str ''OPENAI_API_KEY missing in env''))])\<rparr>,
      [])"
proof -
  let ?req = "\<lparr>route = GenerateName, origin = None, x_api_key = None, body = JObj []\<rparr>"
  let ?e = "\<lparr>ALLOWED_ORIGINS = None, CLIENT_API_KEY = None, OPENAI_API_KEY = Some (str ''sk'')\<rparr>"
  let ?bare = "\<lparr>ALLOWED_ORIGINS = None, CLIENT_API_KEY = None, OPENAI_API_KEY = None\<rparr>"
  let ?fetch = "\<lambda>rq::fetch_request. Resolved 503 (str ''busy'') (Inl (SyntaxError []))"
  let ?prompt = "str ''Generate 15 creative Twitch usernames. Keywords: . Style: short. One per line.''"
  have g: "origin_callback (allowed ?e) (origin ?req) = Inr True" "auth ?e ?req = None"
    "origin_callback (allowed ?bare) (origin ?req) = Inr True" "auth ?bare ?req = None"
    by (simp_all add: allowed_def origin_callback_def auth_def)
  have h: "(route ?req = GenerateTitle \<and> name_prompt (body ?req) = title_prompt (body ?req) \<and> (200::nat) = 160)
       \<or> (route ?req = GenerateName \<and> name_prompt (body ?req) = name_prompt (body ?req) \<and> (200::nat) = 200)
       \<or> (route ?req = GenerateBio \<and> name_prompt (body ?req) = bio_prompt (body ?req) \<and> (200::nat) = 160)"
    by simp
  have t: "template exact_runtime (name_prompt (body ?req)) = Inr ?prompt"
    using template_name_prompt_empty[of exact_runtime] by simp
  have c: "callOpenAI ?e ?fetch ?prompt 200
      = (Inl (Error (str ''OpenAI error 503: busy'')), [chat_request (str ''sk'') ?prompt 200])"
    apply (simp add: callOpenAI_def truthy_def Let_def)
    apply (simp add: ok_def)
    apply (simp add: digits.simps)
    apply (simp add: str_def)
    done
  show ?thesis
    using generation_failure_is_500[OF g(1,2) h, where rt = exact_runtime and prompt = ?prompt
        and fetch = ?fetch and err = "Error (str ''OpenAI error 503: busy'')"
        and sent = "[chat_request (str ''sk'') ?prompt 200]"]
      generation_failure_is_500[OF g(3,4) h, where rt = exact_runtime and prompt = ?prompt
        and fetch = unreachable] t c
    by simp
qed

section \<open>Calculators\<close>

lemma field_or_absent: "body_field b k = None \<Longrightarrow> field_or b k d = d"
  by (simp add: field_or_def)

lemma field_or_present: "body_field b k = Some x \<Longrightarrow> field_or b k d = x"
  by (simp add: field_or_def)

lemma calc_ads_numbers:
  assumes "to_number rt (field_or b (str ''viewers'') (JNum (Fin 0))) = Inr v"
    and "to_number rt (field_or b (str ''cpm'') (JNum (Fin 3))) = Inr c"
    and "to_number rt (field_or b (str ''adMinutes'') (JNum (Fin 0))) = Inr a"
  shows "calc_ads rt b =
     Inr (json_reply 200
            (JObj [(str ''adMinutes'', JNum a), (str ''viewers'', JNum v), (str ''cpm'', JNum c),
                   (str ''earnings'', JNum (adEarnings rt a v c))]))"
  using assms by (simp add: calc_ads_def Let_def)

lemma adEarnings_exact:
  "\<forall>q. round64 rt q = Fin q \<Longrightarrow> adEarnings rt (Fin z) (Fin x) (Fin y) = Fin (x / 1000 * y * z)"
  by (simp add: adEarnings_def num_mul_def)

lemma adEarnings_example:
  "round64 rt 5 = Fin 5 \<Longrightarrow> round64 rt 15 = Fin 15 \<Longrightarrow> round64 rt 150 = Fin 150 \<Longrightarrow>
   adEarnings rt (Fin 10) (Fin 5000) (Fin 3) = Fin 150"
  by (simp add: adEarnings_def num_mul_def)

lemma calc_ads_example:
  assumes "round64 rt 5 = Fin 5" "round64 rt 15 = Fin 15" "round64 rt 150 = Fin 150"
  shows "calc_ads rt (JObj [(str ''adMinutes'', JNum (Fin 10)), (str ''viewers'', JNum (Fin 5000)),
                          (str ''cpm'', JNum (Fin 3))])
     = Inr \<lparr>status = 200,
           payload = JsonBody (JObj [(str ''adMinutes'', JNum (Fin 10)), (str ''viewers'', JNum (Fin 5000)),
                                    (str ''cpm'', JNum (Fin 3)), (str ''earnings'', JNum (Fin 150))])\<rparr>"
    and "calc_ads rt (JObj [(str ''adMinutes'', JNum (Fin 10)), (str ''viewers'', JNum (Fin 5000))])
     = Inr \<lparr>status = 200,
           payload = JsonBody (JObj [(str ''adMinutes'', JNum (Fin 10)), (str ''viewers'', JNum (Fin 5000)),
                                    (str ''cpm'', JNum (Fin 3)), (str ''earnings'', JNum (Fin 150))])\<rparr>"
  using adEarnings_example[OF assms]
  by (simp_all add: calc_ads_def field_or_def json_reply_def str_def)

text \<open>
  Claim C5. The \<open>/calc-ads\<close> computation. Whenever the three inputs coerce to numbers,
  the handler answers with them and with the earnings
  \<open>(viewers / 1000) * cpm * adMinutes\<close>, computed in this order, each operation rounding
  its result; where no rounding is needed this is the exact value of the formula. A
  \<open>cpm\<close> that the request body does not supply is 3, and one it supplies is used. In
  particular \<open>adEarnings(10, 5000, 3) = 150\<close>, with \<open>cpm\<close> given or left out: the
  intermediate results 5, 15 and 150 are binary64 values, which rounding leaves as they
  are.
\<close>

theorem calc_ads_earnings:
  "(to_number rt (field_or b (str ''viewers'') (JNum (Fin 0))) = Inr v
      \<and> to_number rt (field_or b (str ''cpm'') (JNum (Fin 3))) = Inr c
      \<and> to_number rt (field_or b (str ''adMinutes'') (JNum (Fin 0))) = Inr a \<longrightarrow>
    calc_ads rt b =
      Inr (json_reply 200
             (JObj [(str ''adMinutes'', JNum a), (str ''viewers'', JNum v), (str ''cpm'', JNum c),
                    (str ''earnings'', JNum (adEarnings rt a v c))])))
   \<and> adEarnings rt a v c = num_mul rt (num_mul rt (div_1000 rt v) c) a
   \<and> ((\<forall>q. round64 rt q = Fin q) \<longrightarrow>
        adEarnings rt (Fin z) (Fin x) (Fin y) = Fin (x / 1000 * y * z))
   \<and> (body_field b (str ''cpm'') = None \<longrightarrow>
        field_or b (str ''cpm'') (JNum (Fin 3)) = JNum (Fin 3)
        \<and> to_number rt (field_or b (str ''cpm'') (JNum (Fin 3))) = Inr (Fin 3))
   \<and> (body_field b (str ''cpm'') = Some given \<longrightarrow> field_or b (str ''cpm'') (JNum (Fin 3)) = given)
   \<and> (round64 rt 5 = Fin 5 \<and> round64 rt 15 = Fin 15 \<and> round64 rt 150 = Fin 150 \<longrightarrow>
        adEarnings rt (Fin 10) (Fin 5000) (Fin 3) = Fin 150
        \<and> calc_ads rt (JObj [(str ''adMinutes'', JNum (Fin 10)), (str ''viewers'', JNum (Fin 5000)),
                             (str ''cpm'', JNum (Fin 3))])
           = Inr \<lparr>status = 200,
               payload = JsonBody (JObj [(str ''adMinutes'', JNum (Fin 10)),
                          (str ''viewers'', JNum (Fin 5000)), (str ''cpm'', JNum (Fin 3)),
                          (str ''earnings'', JNum (Fin 150))])\<rparr>
        \<and> calc_ads rt (JObj [(str ''adMinutes'', JNum (Fin 10)), (str ''viewers'', JNum (Fin 5000))])
           = Inr \<lparr>status = 200,
               payload = JsonBody (JObj [(str ''adMinutes'', JNum (Fin 10)),
                          (str ''viewers'', JNum (Fin 5000)), (str ''cpm'', JNum (Fin 3)),
                          (str ''earnings'', JNum (Fin 150))])\<rparr>)"
proof -
  have absent: "body_field b (str ''cpm'') = None \<longrightarrow>
        field_or b (str ''cpm'') (JNum (Fin 3)) = JNum (Fin 3)
        \<and> to_number rt (field_or b (str ''cpm'') (JNum (Fin 3))) = Inr (Fin 3)"
    by (simp add: field_or_absent)
  have formula: "adEarnings rt a v c = num_mul rt (num_mul rt (div_1000 rt v) c) a"
    by (simp add: adEarnings_def)
  show ?thesis
    using calc_ads_numbers[of rt b v c a] formula adEarnings_exact[of rt z x y] absent
      field_or_present[of b "str ''cpm''" given "JNum (Fin 3)"]
      adEarnings_example[of rt] calc_ads_example[of rt]
    by blast
qed

theorem calc_ads_earnings_witness:
  "calc_ads exact_runtime
      (JObj [(str ''adMinutes'', JNum (Fin 2)), (str ''viewers'', JBool True)])
     = Inr \<lparr>status = 200,
         payload = JsonBody (JObj [(str ''adMinutes'', JNum (Fin 2)), (str ''viewers'', JNum (Fin 1)),
                    (str ''cpm'', JNum (Fin 3)), (str ''earnings'', JNum (Fin (6 / 1000)))])\<rparr>
   \<and> calc_ads exact_runtime
      (JObj [(str ''adMinutes'', JNum (Fin 10)), (str ''viewers'', JNum (Fin 5000))])
     = Inr \<lparr>status = 200,
         payload = JsonBody (JObj [(str ''adMinutes'', JNum (Fin 10)), (str ''viewers'', JNum (Fin 5000)),
                    (str ''cpm'', JNum (Fin 3)), (str ''earnings'', JNum (Fin 150))])\<rparr>"
  using calc_ads_earnings[where rt = exact_runtime
      and b = "JObj [(str ''adMinutes'', JNum (Fin 2)), (str ''viewers'', JBool True)]"
      and v = "Fin 1" and c = "Fin 3" and a = "Fin 2" and x = 1 and y = 3 and z = 2]
  by (simp add: exact_runtime_def field_or_def str_def json_reply_def calc_ads_def adEarnings_def
      num_mul_def Let_def)

text \<open>
  The two examples of the specification for \<open>/calc-subs\<close>, which use numeric tiers: the
  tier is looked up by the string it prints as.
\<close>

lemma subscriptionEarnings_examples:
  "round64 rt 500 = Fin 500 \<Longrightarrow>
     subscriptionEarnings rt (Fin 100) (number_to_string rt (Fin 2)) = Fin 500"
  "round64 rt 250 = Fin 250 \<Longrightarrow>
     subscriptionEarnings rt (Fin 100) (number_to_string rt (Fin 99)) = Fin 250"
  by (simp_all add: subscriptionEarnings_def number_to_string_def digits.simps get_member_def
      tierRates_def object_prototype_def str_def num_mul_def)

text \<open>
  Claim C4 says that every unrecognized tier falls back to the rate of tier 1, so that
  \<open>subscriptionEarnings(100, t) = 250\<close> for such a tier \<open>t\<close>. The code looks the tier up
  with \<open>tierRates[tier] ?? tierRates[1]\<close>, and the fallback misses the names that the
  table inherits from \<open>Object.prototype\<close>: for the tier \<open>"toString"\<close> the lookup gives a
  function, which is not nullish, the product is \<open>NaN\<close>, and the response carries
  \<open>"earnings": null\<close>.
\<close>

theorem calc_subs_inherited_tier:
  "get_member tierRates (str ''toString'') = Builtin
   \<and> subscriptionEarnings rt (Fin 100) (str ''toString'') = NaN
   \<and> calc_subs rt (JObj [(str ''subs'', JNum (Fin 100)), (str ''tier'', JStr (str ''toString''))])
     = Inr \<lparr>status = 200,
         payload = JsonBody (JObj [(str ''subs'', JNum (Fin 100)),
                    (str ''tier'', JStr (str ''toString'')), (str ''earnings'', JNull)])\<rparr>"
proof -
  have m: "get_member tierRates (str ''toString'') = Builtin"
    by (simp add: get_member_def tierRates_def object_prototype_def str_def)
  then have e: "subscriptionEarnings rt (Fin 100) (str ''toString'') = NaN"
    by (simp add: subscriptionEarnings_def num_mul_def)
  have "calc_subs rt (JObj [(str ''subs'', JNum (Fin 100)), (str ''tier'', JStr (str ''toString''))])
     = Inr (json_reply 200 (JObj [(str ''subs'', JNum (Fin 100)),
                    (str ''tier'', JStr (str ''toString'')),
                    (str ''earnings'', JNum (subscriptionEarnings rt (Fin 100) (str ''toString'')))]))"
    by (simp add: calc_subs_def field_or_def str_def)
  then show ?thesis using m e by (simp add: json_reply_def)
qed

section \<open>The shape of the responses\<close>

lemma wire_num_sendable: "sendable (wire (JNum n))"
  by (cases n) simp_all

lemma wire_list_strings: "wire_list (map JStr xs) = map JStr xs"
  by (induction xs) simp_all

lemma strings_all: "list_all is_string (map JStr xs)"
  by (induction xs) simp_all

lemma unauthorized_fields:
  "\<exists>kvs. payload unauthorized = JsonBody (JObj kvs) \<and> (\<forall>kv\<in>set kvs. sendable (snd kv))"
  by (simp add: unauthorized_def json_reply_def)

lemma error_reply_fields:
  "\<exists>kvs. payload (error_reply err) = JsonBody (JObj kvs) \<and> (\<forall>kv\<in>set kvs. sendable (snd kv))"
  by (simp add: error_reply_def json_reply_def)

lemma generate_fields:
  "\<exists>kvs. payload (fst (generate rt e fetch parts budget list_name limit)) = JsonBody (JObj kvs)
         \<and> (\<forall>kv\<in>set kvs. sendable (snd kv))"
proof (cases "template rt parts")
  case (Inl err)
  then show ?thesis using error_reply_fields[of err] by (simp add: generate_def)
next
  case (Inr prompt)
  obtain r sent where c: "callOpenAI e fetch prompt budget = (r, sent)"
    by (cases "callOpenAI e fetch prompt budget")
  show ?thesis
  proof (cases r)
    case (Inl err)
    then show ?thesis using Inr c error_reply_fields[of err] by (simp add: generate_def)
  next
    case out: (Inr out)
    show ?thesis
    proof (cases "\<exists>raw. out = JStr raw")
      case True
      then obtain raw where "out = JStr raw" by blast
      then show ?thesis using Inr c out
        by (simp add: generate_def json_reply_def wire_list_strings strings_all)
    next
      case False
      then have "generate rt e fetch parts budget list_name limit
          = (error_reply (TypeError (str ''out.split is not a function'')), sent)"
        using Inr c out by (cases out) (simp_all add: generate_def)
      then show ?thesis
        using error_reply_fields[of "TypeError (str ''out.split is not a function'')"] by simp
    qed
  qed
qed

lemma calc_subs_fields:
  assumes "calc_subs rt b = Inr resp"
  shows "\<exists>kvs. payload resp = JsonBody (JObj kvs)
         \<and> (\<forall>kv\<in>set kvs. sendable (snd kv)
               \<or> kv = (str ''tier'', wire (field_or b (str ''tier'') (JNum (Fin 1)))))"
  using assms
  by (auto simp: calc_subs_def Let_def json_reply_def wire_num_sendable simp del: wire.simps(3)
      split: sum.splits)

lemma calc_ads_fields:
  assumes "calc_ads rt b = Inr resp"
  shows "\<exists>kvs. payload resp = JsonBody (JObj kvs) \<and> (\<forall>kv\<in>set kvs. sendable (snd kv))"
  using assms
  by (auto simp: calc_ads_def Let_def json_reply_def wire_num_sendable simp del: wire.simps(3)
      split: sum.splits)

lemma handle_fields:
  assumes "handle rt e fetch req = (Responded resp, sent)" and "payload resp = JsonBody j"
  shows "\<exists>kvs. j = JObj kvs
         \<and> (\<forall>kv\<in>set kvs. sendable (snd kv)
               \<or> (route req = CalcSubs
                   \<and> kv = (str ''tier'', wire (field_or (body req) (str ''tier'') (JNum (Fin 1))))))"
proof (cases "route req")
  case GenerateTitle
  then have "resp = fst (generate rt e fetch (title_prompt (body req)) 160 (str ''titles'') 10)"
    using assms(1) by (simp add: handle_def lift_async_def generate_title_def)
  then show ?thesis
    using generate_fields[of rt e fetch "title_prompt (body req)" 160 "str ''titles''" 10] assms(2)
    by auto
next
  case GenerateName
  then have "resp = fst (generate rt e fetch (name_prompt (body req)) 200 (str ''names'') 15)"
    using assms(1) by (simp add: handle_def lift_async_def generate_name_def)
  then show ?thesis
    using generate_fields[of rt e fetch "name_prompt (body req)" 200 "str ''names''" 15] assms(2)
    by auto
next
  case GenerateBio
  then have "resp = fst (generate rt e fetch (bio_prompt (body req)) 160 (str ''bios'') 5)"
    using assms(1) by (simp add: handle_def lift_async_def generate_bio_def)
  then show ?thesis
    using generate_fields[of rt e fetch "bio_prompt (body req)" 160 "str ''bios''" 5] assms(2)
    by auto
next
  case CalcSubs
  then have "calc_subs rt (body req) = Inr resp"
    using assms(1) by (simp add: handle_def lift_sync_def split: sum.splits)
  then show ?thesis using calc_subs_fields[of rt "body req" resp] assms(2) CalcSubs by auto
next
  case CalcAds
  then have "calc_ads rt (body req) = Inr resp"
    using assms(1) by (simp add: handle_def lift_sync_def split: sum.splits)
  then show ?thesis using calc_ads_fields[of rt "body req" resp] assms(2) by auto
next
  case Health
  then have "resp = health" using assms(1) by (simp add: handle_def)
  then show ?thesis using assms(2) by (simp add: health_def)
next
  case NoRoute
  then show ?thesis using assms by (simp add: handle_def)
qed

lemma serve_fields:
  assumes "serve rt e fetch req = (Responded resp, sent)" and "payload resp = JsonBody j"
  shows "\<exists>kvs. j = JObj kvs
         \<and> (\<forall>kv\<in>set kvs. sendable (snd kv)
               \<or> (route req = CalcSubs
                   \<and> kv = (str ''tier'', wire (field_or (body req) (str ''tier'') (JNum (Fin 1))))))"
proof (cases "origin_callback (allowed e) (origin req)")
  case (Inl err)
  then show ?thesis using assms by (simp add: serve_def)
next
  case (Inr ok)
  show ?thesis
  proof (cases "auth e req")
    case None
    then have "handle rt e fetch req = (Responded resp, sent)"
      using Inr assms(1) by (simp add: serve_def)
    then show ?thesis using assms(2) by (rule handle_fields)
  next
    case (Some r)
    then have "r = unauthorized" by (simp add: auth_def Let_def split: if_splits)
    then have "resp = unauthorized" using Some Inr assms(1) by (simp add: serve_def)
    then show ?thesis using unauthorized_fields assms(2) by auto
  qed
qed

lemma num_mul_NaN: "num_mul rt NaN y = NaN" "num_mul rt x NaN = NaN"
  by (simp_all add: num_mul_def split: jsnum.splits)

lemma adEarnings_NaN:
  "a = NaN \<or> v = NaN \<or> c = NaN \<Longrightarrow> adEarnings rt a v c = NaN"
  by (auto simp: adEarnings_def num_mul_NaN)

lemma subscriptionEarnings_NaN: "subscriptionEarnings rt NaN k = NaN"
  by (simp add: subscriptionEarnings_def num_mul_NaN)

lemma wire_NaN: "wire (JNum NaN) = JNull"
  by simp

lemma calc_subs_converted:
  assumes "to_number rt (field_or b (str ''subs'') (JNum (Fin 0))) = Inr n"
    and "to_string rt (field_or b (str ''tier'') (JNum (Fin 1))) = Inr k"
  shows "calc_subs rt b =
     Inr \<lparr>status = 200,
         payload = JsonBody (JObj [(str ''subs'', wire (JNum n)),
                    (str ''tier'', wire (field_or b (str ''tier'') (JNum (Fin 1)))),
                    (str ''earnings'', wire (JNum (subscriptionEarnings rt n k)))])\<rparr>"
  using assms by (simp add: calc_subs_def Let_def json_reply_def del: wire.simps(3))

lemma calc_ads_converted:
  assumes "to_number rt (field_or b (str ''viewers'') (JNum (Fin 0))) = Inr v"
    and "to_number rt (field_or b (str ''cpm'') (JNum (Fin 3))) = Inr c"
    and "to_number rt (field_or b (str ''adMinutes'') (JNum (Fin 0))) = Inr a"
  shows "calc_ads rt b =
     Inr \<lparr>status = 200,
         payload = JsonBody (JObj [(str ''adMinutes'', wire (JNum a)), (str ''viewers'', wire (JNum v)),
                    (str ''cpm'', wire (JNum c)),
                    (str ''earnings'', wire (JNum (adEarnings rt a v c)))])\<rparr>"
  using assms by (simp add: calc_ads_def Let_def json_reply_def del: wire.simps(3))

lemma subscriptionEarnings_sent_null: "wire (JNum (subscriptionEarnings rt NaN k)) = JNull"
  by (simp add: subscriptionEarnings_NaN)

lemma adEarnings_sent_null:
  "a = NaN \<or> v = NaN \<or> c = NaN \<Longrightarrow> wire (JNum (adEarnings rt a v c)) = JNull"
  by (simp add: adEarnings_NaN)

text \<open>
  Claim C9, as the claim states it, fails in three ways. \<open>/calc-subs\<close> puts the \<open>tier\<close>
  of the request into its response, so a tier that is an object is sent back as an
  object. An input that coerces to \<open>NaN\<close> gives earnings that are sent as \<open>null\<close>. Neither
  is a string, a number or an array of them. And the calculator endpoints do have an
  error path: a numeric field that is an object with a \<open>toString\<close> property of its own
  makes \<open>Number\<close> throw, and the request ends in the error with no response of the
  handler, so such an input is rejected rather than propagated into the earnings.
\<close>

theorem calculator_responses_not_plain:
  "serve exact_runtime \<lparr>ALLOWED_ORIGINS = None, CLIENT_API_KEY = None, OPENAI_API_KEY = None\<rparr>
     unreachable
     \<lparr>route = CalcSubs, origin = None, x_api_key = None,
      body = JObj [(str ''subs'', JNum (Fin 10)), (str ''tier'', JObj [(str ''a'', JNum (Fin 1))])]\<rparr>
   = (Responded \<lparr>status = 200,
        payload = JsonBody (JObj [(str ''subs'', JNum (Fin 10)),
                   (str ''tier'', JObj [(str ''a'', JNum (Fin 1))]),
                   (str ''earnings'', JNum (Fin 25))])\<rparr>, [])
   \<and> \<not> plain (JObj [(str ''a'', JNum (Fin 1))])
   \<and> serve exact_runtime \<lparr>ALLOWED_ORIGINS = None, CLIENT_API_KEY = None, OPENAI_API_KEY = None\<rparr>
     unreachable
     \<lparr>route = CalcAds, origin = None, x_api_key = None,
      body = JObj [(str ''viewers'', JObj [])]\<rparr>
   = (Responded \<lparr>status = 200,
        payload = JsonBody (JObj [(str ''adMinutes'', JNum (Fin 0)), (str ''viewers'', JNull),
                   (str ''cpm'', JNum (Fin 3)), (str ''earnings'', JNull)])\<rparr>, [])
   \<and> \<not> plain JNull
   \<and> serve exact_runtime \<lparr>ALLOWED_ORIGINS = None, CLIENT_API_KEY = None, OPENAI_API_KEY = None\<rparr>
     unreachable
     \<lparr>route = CalcAds, origin = None, x_api_key = None,
      body = JObj [(str ''viewers'', JObj [(str ''toString'', JNum (Fin 1))])]\<rparr>
   = (Failed (TypeError (str ''Cannot convert object to primitive value'')), [])"
  by (simp add: serve_def allowed_def origin_callback_def auth_def handle_def lift_sync_def
      calc_subs_def calc_ads_def field_or_def str_def json_reply_def subscriptionEarnings_def
      adEarnings_def num_mul_def is_zero_def get_member_def tierRates_def object_prototype_def
      exact_runtime_def cannot_convert_def Let_def)

text \<open>
  Claim C9, amended. Every JSON response body of the application is an object, and each
  of its fields is a string, a finite number, \<open>null\<close> (which is how \<open>JSON.stringify\<close> sends
  a number that is not finite, such as \<open>NaN\<close>) or an array of strings, except the \<open>tier\<close>
  field of \<open>/calc-subs\<close>, which is the tier of the request (1 when the request has none)
  as \<open>JSON.stringify\<close> sends it, whatever JSON value it is: an object stays an object,
  and a number that is not finite becomes \<open>null\<close>. The calculator handlers validate
  nothing: on a request whose conversions all succeed (\<open>Number\<close> of each numeric field
  and, for \<open>/calc-subs\<close>, the property key of the tier), the response has status 200 and
  holds the converted inputs and the earnings computed from them, and an input that
  coerces to \<open>NaN\<close> propagates into the earnings, which are sent as \<open>null\<close>. A request
  on which a conversion throws is outside this statement.
\<close>

theorem response_fields:
  "(serve rt e fetch req = (Responded resp, sent) \<and> payload resp = JsonBody j \<longrightarrow>
      (\<exists>kvs. j = JObj kvs
         \<and> (\<forall>kv\<in>set kvs. sendable (snd kv)
               \<or> (route req = CalcSubs
                   \<and> kv = (str ''tier'', wire (field_or (body req) (str ''tier'') (JNum (Fin 1))))))))
   \<and> wire (JObj props) = JObj (wire_fields props)
   \<and> wire (JNum (Fin q)) = JNum (Fin q)
   \<and> wire (JNum NaN) = JNull \<and> wire (JNum PosInf) = JNull \<and> wire (JNum NegInf) = JNull
   \<and> (to_number rt (field_or b (str ''subs'') (JNum (Fin 0))) = Inr n
        \<and> to_string rt (field_or b (str ''tier'') (JNum (Fin 1))) = Inr k \<longrightarrow>
      calc_subs rt b =
        Inr \<lparr>status = 200,
            payload = JsonBody (JObj [(str ''subs'', wire (JNum n)),
                       (str ''tier'', wire (field_or b (str ''tier'') (JNum (Fin 1)))),
                       (str ''earnings'', wire (JNum (subscriptionEarnings rt n k)))])\<rparr>
      \<and> (n = NaN \<longrightarrow> wire (JNum (subscriptionEarnings rt n k)) = JNull))
   \<and> (to_number rt (field_or b (str ''viewers'') (JNum (Fin 0))) = Inr v
        \<and> to_number rt (field_or b (str ''cpm'') (JNum (Fin 3))) = Inr c
        \<and> to_number rt (field_or b (str ''adMinutes'') (JNum (Fin 0))) = Inr a \<longrightarrow>
      calc_ads rt b =
        Inr \<lparr>status = 200,
            payload = JsonBody (JObj [(str ''adMinutes'', wire (JNum a)),
                       (str ''viewers'', wire (JNum v)), (str ''cpm'', wire (JNum c)),
                       (str ''earnings'', wire (JNum (adEarnings rt a v c)))])\<rparr>
      \<and> (a = NaN \<or> v = NaN \<or> c = NaN \<longrightarrow> wire (JNum (adEarnings rt a v c)) = JNull))"
proof -
  have shape: "serve rt e fetch req = (Responded resp, sent) \<and> payload resp = JsonBody j \<longrightarrow>
      (\<exists>kvs. j = JObj kvs
         \<and> (\<forall>kv\<in>set kvs. sendable (snd kv)
               \<or> (route req = CalcSubs
                   \<and> kv = (str ''tier'', wire (field_or (body req) (str ''tier'') (JNum (Fin 1)))))))"
    using serve_fields[of rt e fetch req resp sent j] by blast
  have stringify: "wire (JObj props) = JObj (wire_fields props)" "wire (JNum (Fin q)) = JNum (Fin q)"
    "wire (JNum NaN) = JNull" "wire (JNum PosInf) = JNull" "wire (JNum NegInf) = JNull"
    by simp_all
  have subs: "to_number rt (field_or b (str ''subs'') (JNum (Fin 0))) = Inr n
        \<and> to_string rt (field_or b (str ''tier'') (JNum (Fin 1))) = Inr k \<longrightarrow>
      calc_subs rt b =
        Inr \<lparr>status = 200,
            payload = JsonBody (JObj [(str ''subs'', wire (JNum n)),
                       (str ''tier'', wire (field_or b (str ''tier'') (JNum (Fin 1)))),
                       (str ''earnings'', wire (JNum (subscriptionEarnings rt n k)))])\<rparr>
      \<and> (n = NaN \<longrightarrow> wire (JNum (subscriptionEarnings rt n k)) = JNull)"
    using calc_subs_converted[of rt b n k] subscriptionEarnings_sent_null[of rt k] by blast
  have ads: "to_number rt (field_or b (str ''viewers'') (JNum (Fin 0))) = Inr v
        \<and> to_number rt (field_or b (str ''cpm'') (JNum (Fin 3))) = Inr c
        \<and> to_number rt (field_or b (str ''adMinutes'') (JNum (Fin 0))) = Inr a \<longrightarrow>
      calc_ads rt b =
        Inr \<lparr>status = 200,
            payload = JsonBody (JObj [(str ''adMinutes'', wire (JNum a)),
                       (str ''viewers'', wire (JNum v)), (str ''cpm'', wire (JNum c)),
                       (str ''earnings'', wire (JNum (adEarnings rt a v c)))])\<rparr>
      \<and> (a = NaN \<or> v = NaN \<or> c = NaN \<longrightarrow> wire (JNum (adEarnings rt a v c)) = JNull)"
    using calc_ads_converted[of rt b v c a] adEarnings_sent_null[of a v c rt] by blast
  from shape stringify subs ads show ?thesis by blast
qed

theorem response_fields_witness:
  "serve exact_runtime \<lparr>ALLOWED_ORIGINS = None, CLIENT_API_KEY = None, OPENAI_API_KEY = None\<rparr>
     unreachable
     \<lparr>route = CalcSubs, origin = None, x_api_key = None,
      body = JObj [(str ''subs'', JObj []), (str ''tier'', JBool True)]\<rparr>
   = (Responded \<lparr>status = 200,
        payload = JsonBody (JObj [(str ''subs'', JNull), (str ''tier'', JBool True),
                   (str ''earnings'', JNull)])\<rparr>, [])
   \<and> sendable JNull
   \<and> wire (field_or (JObj [(str ''subs'', JObj []), (str ''tier'', JBool True)]) (str ''tier'')
              (JNum (Fin 1))) = JBool True
   \<and> to_number exact_runtime
        (field_or (JObj [(str ''subs'', JObj []), (str ''tier'', JBool True)]) (str ''subs'')
           (JNum (Fin 0))) = Inr NaN
   \<and> to_string exact_runtime
        (field_or (JObj [(str ''subs'', JObj []), (str ''tier'', JBool True)]) (str ''tier'')
           (JNum (Fin 1))) = Inr (str ''true'')
   \<and> calc_ads exact_runtime (JObj [(str ''viewers'', JObj []), (str ''adMinutes'', JNum (Fin 2))])
     = Inr \<lparr>status = 200,
         payload = JsonBody (JObj [(str ''adMinutes'', JNum (Fin 2)), (str ''viewers'', JNull),
                    (str ''cpm'', JNum (Fin 3)), (str ''earnings'', JNull)])\<rparr>"
  using response_fields[where rt = exact_runtime
      and e = "\<lparr>ALLOWED_ORIGINS = None, CLIENT_API_KEY = None, OPENAI_API_KEY = None\<rparr>"
      and fetch = unreachable
      and req = "\<lparr>route = CalcSubs, origin = None, x_api_key = None,
          body = JObj [(str ''subs'', JObj []), (str ''tier'', JBool True)]\<rparr>"
      and b = "JObj [(str ''subs'', JObj []), (str ''tier'', JBool True)]"
      and n = NaN and k = "str ''true''"]
    response_fields[where rt = exact_runtime
      and b = "JObj [(str ''viewers'', JObj []), (str ''adMinutes'', JNum (Fin 2))]"
      and v = NaN and c = "Fin 3" and a = "Fin 2"]
  by (simp add: serve_def allowed_def origin_callback_def auth_def handle_def lift_sync_def
      field_or_def str_def)

section \<open>Further properties of the handlers\<close>

subsection \<open>Integer tiers\<close>

lemma digit_cases:
  "m < 10 \<Longrightarrow> m = 0 \<or> m = 1 \<or> m = 2 \<or> m = 3 \<or> m = 4 \<or> m = 5 \<or> m = 6 \<or> m = 7 \<or> m = 8
     \<or> m = (9::nat)"
  by arith

lemma digit_code:
  assumes "m < 10"
  shows "(of_nat (48 + m) :: code_unit) \<in> {48, 49, 50, 51, 52, 53, 54, 55, 56, 57}"
  using digit_cases[OF assms] by auto

lemma digits_not_Nil: "digits n \<noteq> []"
  by (subst digits.simps) simp

lemma digits_last: "last (digits n) = of_nat (48 + n mod 10)"
  by (subst digits.simps) simp

lemma digits_last_code: "last (digits n) \<in> {48, 49, 50, 51, 52, 53, 54, 55, 56, 57}"
  unfolding digits_last by (rule digit_code) simp

lemma digits_single: "digits n = [c] \<longleftrightarrow> n < 10 \<and> c = of_nat (48 + n)"
proof (cases "n < 10")
  case True
  then show ?thesis by (subst digits.simps) auto
next
  case False
  then have "digits n = digits (n div 10) @ [of_nat (48 + n mod 10)]"
    by (subst digits.simps) simp
  then have "length (digits n) \<ge> 2"
    using digits_not_Nil[of "n div 10"] by (cases "digits (n div 10)") auto
  then show ?thesis using False by auto
qed

lemma digits_tierRates:
  "map_of tierRates (digits n) =
     (if n = 1 then Some (Fin (5 / 2)) else if n = 2 then Some (Fin 5)
      else if n = 3 then Some (Fin (25 / 2)) else None)"
proof (cases "n < 10")
  case True
  from digit_cases[OF this] show ?thesis
    by (auto simp: tierRates_def str_def digits.simps)
next
  case False
  then have "\<And>c. digits n \<noteq> [c]" by (simp add: digits_single)
  then show ?thesis using False by (auto simp: tierRates_def str_def)
qed

lemma digits_not_inherited: "digits n \<notin> set object_prototype"
proof
  assume "digits n \<in> set object_prototype"
  then have "last (digits n) \<in> {114, 95, 121, 102, 101, 103}"
    by (auto simp: object_prototype_def str_def)
  then show False using digits_last_code[of n] by auto
qed

lemma get_member_digits:
  "get_member tierRates (digits n) =
     (if n = 1 then Own (Fin (5 / 2)) else if n = 2 then Own (Fin 5)
      else if n = 3 then Own (Fin (25 / 2)) else Undefined)"
  by (simp add: get_member_def digits_tierRates digits_not_inherited)

lemma get_member_minus: "get_member tierRates (str ''-'' @ digits n) = Undefined"
proof -
  obtain c cs where "digits n = c # cs" using digits_not_Nil[of n] by (cases "digits n") auto
  then show ?thesis
    by (simp add: get_member_def tierRates_def object_prototype_def str_def)
qed

lemma number_to_string_int:
  "\<bar>i\<bar> < 2 ^ 53 \<Longrightarrow>
   number_to_string rt (Fin (of_int i)) =
     (if i < 0 then str ''-'' @ digits (nat (- i)) else digits (nat i))"
proof -
  assume "\<bar>i\<bar> < 2 ^ 53"
  then have "\<bar>of_int i :: rat\<bar> < 2 ^ 53"
    by (metis of_int_abs of_int_less_iff of_int_numeral of_int_power)
  then show ?thesis by (simp add: number_to_string_def)
qed

lemma get_member_one: "get_member tierRates (str ''1'') = Own (Fin (5 / 2))"
  by (simp add: get_member_def tierRates_def str_def)

text \<open>
  On a request whose tier is an integer (below \<open>2^53\<close> in magnitude) and whose \<open>subs\<close>
  coerces to a number, \<open>/calc-subs\<close> answers with the number of subscribers times the
  rate of the tier: 2.5 for tier 1, 5 for tier 2, 12.5 for tier 3, and the rate of tier 1
  for every other integer. So \<open>subscriptionEarnings(100, 2) = 500\<close> and
  \<open>subscriptionEarnings(100, 99) = 250\<close>.
\<close>

theorem calc_subs_integer_tier:
  assumes tier: "body_field b (str ''tier'') = Some (JNum (Fin (of_int i)))" and small: "\<bar>i\<bar> < 2 ^ 53"
    and subs: "to_number rt (field_or b (str ''subs'') (JNum (Fin 0))) = Inr n"
  shows "calc_subs rt b =
     Inr (json_reply 200
            (JObj [(str ''subs'', JNum n), (str ''tier'', JNum (Fin (of_int i))),
                   (str ''earnings'',
                    JNum (num_mul rt n
                            (Fin (if i = 1 then 5 / 2 else if i = 2 then 5
                                  else if i = 3 then 25 / 2 else 5 / 2))))]))"
proof -
  have t: "field_or b (str ''tier'') (JNum (Fin 1)) = JNum (Fin (of_int i))"
    using tier by (simp add: field_or_def)
  have "subscriptionEarnings rt n (number_to_string rt (Fin (of_int i))) =
     num_mul rt n (Fin (if i = 1 then 5 / 2 else if i = 2 then 5 else if i = 3 then 25 / 2 else 5 / 2))"
    using get_member_one small
    by (cases "i < 0")
      (auto simp: subscriptionEarnings_def number_to_string_int get_member_minus get_member_digits)
  then show ?thesis using t subs by (simp add: calc_subs_def Let_def)
qed

theorem calc_subs_integer_tier_witness:
  "calc_subs exact_runtime (JObj [(str ''subs'', JNum (Fin 100)), (str ''tier'', JNum (Fin 2))])
     = Inr \<lparr>status = 200,
         payload = JsonBody (JObj [(str ''subs'', JNum (Fin 100)), (str ''tier'', JNum (Fin 2)),
                    (str ''earnings'', JNum (Fin 500))])\<rparr>
   \<and> calc_subs exact_runtime (JObj [(str ''subs'', JNum (Fin 100)), (str ''tier'', JNum (Fin 99))])
     = Inr \<lparr>status = 200,
         payload = JsonBody (JObj [(str ''subs'', JNum (Fin 100)), (str ''tier'', JNum (Fin 99)),
                    (str ''earnings'', JNum (Fin 250))])\<rparr>"
  using
    calc_subs_integer_tier[where rt = exact_runtime and i = 2 and n = "Fin 100"
      and b = "JObj [(str ''subs'', JNum (Fin 100)), (str ''tier'', JNum (Fin 2))]"]
    calc_subs_integer_tier[where rt = exact_runtime and i = 99 and n = "Fin 100"
      and b = "JObj [(str ''subs'', JNum (Fin 100)), (str ''tier'', JNum (Fin 99))]"]
  by (simp add: field_or_def str_def json_reply_def num_mul_def exact_runtime_def)

subsection \<open>A calculator input that cannot be converted\<close>

text \<open>
  A numeric field that is an object with a \<open>toString\<close> property of its own cannot be
  converted to a number: \<open>Number\<close> throws a TypeError. The calculator handlers are
  synchronous and have no \<open>try\<close>, so the request ends in the error handling of Express,
  with no response of the handler.
\<close>

theorem calculator_throws:
  "to_number rt (JObj [(str ''toString'', x)]) = Inl cannot_convert
   \<and> calc_ads rt (JObj [(str ''viewers'', JObj [(str ''toString'', x)])]) = Inl cannot_convert
   \<and> calc_subs rt (JObj [(str ''subs'', JObj [(str ''toString'', x)])]) = Inl cannot_convert
   \<and> serve rt \<lparr>ALLOWED_ORIGINS = None, CLIENT_API_KEY = None, OPENAI_API_KEY = None\<rparr> fetch
        \<lparr>route = CalcAds, origin = None, x_api_key = None,
         body = JObj [(str ''viewers'', JObj [(str ''toString'', x)])]\<rparr>
     = (Failed cannot_convert, [])"
  by (simp add: serve_def allowed_def origin_callback_def auth_def handle_def lift_sync_def
      calc_ads_def calc_subs_def field_or_def str_def)

subsection \<open>A successful generation\<close>

lemma serve_generation_lists:
  assumes "origin_callback (allowed e) (origin req) = Inr True" "auth e req = None"
    and "(route req = GenerateTitle \<and> parts = title_prompt (body req) \<and> budget = 160
            \<and> list_name = str ''titles'' \<and> limit = 10)
       \<or> (route req = GenerateName \<and> parts = name_prompt (body req) \<and> budget = 200
            \<and> list_name = str ''names'' \<and> limit = 15)
       \<or> (route req = GenerateBio \<and> parts = bio_prompt (body req) \<and> budget = 160
            \<and> list_name = str ''bios'' \<and> limit = 5)"
  shows "serve rt e fetch req = lift_async (generate rt e fetch parts budget list_name limit)"
  using assms
  by (auto simp: serve_def handle_def generate_title_def generate_name_def generate_bio_def)

text \<open>
  On a request that has passed the two gates, when the provider's content is a string,
  each generation endpoint answers with status 200, the parsed lines under the name of
  the endpoint (\<open>titles\<close>, \<open>names\<close>, \<open>bios\<close>), at most 10, 15 and 5 of them, and the
  unparsed text under \<open>raw\<close>.
\<close>

theorem generation_success:
  assumes gates: "origin_callback (allowed e) (origin req) = Inr True" "auth e req = None"
    and handler:
      "(route req = GenerateTitle \<and> parts = title_prompt (body req) \<and> budget = 160
            \<and> list_name = str ''titles'' \<and> limit = 10)
       \<or> (route req = GenerateName \<and> parts = name_prompt (body req) \<and> budget = 200
            \<and> list_name = str ''names'' \<and> limit = 15)
       \<or> (route req = GenerateBio \<and> parts = bio_prompt (body req) \<and> budget = 160
            \<and> list_name = str ''bios'' \<and> limit = 5)"
    and prompt: "template rt parts = Inr prompt"
    and answer: "callOpenAI e fetch prompt budget = (Inr (JStr raw), sent)"
  shows "serve rt e fetch req =
     (Responded \<lparr>status = 200,
        payload = JsonBody (JObj [(list_name, JArr (map JStr (parseLines raw limit))),
                                 (str ''raw'', JStr raw)])\<rparr>, sent)
     \<and> length (parseLines raw limit) \<le> limit"
proof -
  have "serve rt e fetch req = lift_async (generate rt e fetch parts budget list_name limit)"
    using gates handler by (rule serve_generation_lists)
  moreover have "generate rt e fetch parts budget list_name limit =
      (json_reply 200 (JObj [(list_name, JArr (map JStr (parseLines raw limit))),
                             (str ''raw'', JStr raw)]), sent)"
    using prompt answer by (simp add: generate_def)
  moreover have "length (parseLines raw limit) \<le> limit" by (simp add: parseLines_def)
  ultimately show ?thesis by (simp add: lift_async_def json_reply_def wire_list_strings)
qed

theorem generation_success_witness:
  "serve exact_runtime
     \<lparr>ALLOWED_ORIGINS = None, CLIENT_API_KEY = None, OPENAI_API_KEY = Some (str ''sk'')\<rparr>
     (\<lambda>rq. Resolved 200 []
        (Inr (JObj [(str ''choices'',
           JArr [JObj [(str ''message'',
             JObj [(str ''content'', JStr (str ''ace'' @ [CR, LF, LF] @ str ''bo''))])]])])))
     \<lparr>route = GenerateName, origin = None, x_api_key = None, body = JObj []\<rparr>
   = (Responded \<lparr>status = 200,
        payload = JsonBody (JObj [(str ''names'', JArr [JStr (str ''ace''), JStr (str ''bo'')]),
                   (str ''raw'', JStr (str ''ace'' @ [CR, LF, LF] @ str ''bo''))])\<rparr>,
      [chat_request (str ''sk'')
         (str ''Generate 15 creative Twitch usernames. Keywords: . Style: short. One per line.'') 200])"
proof -
  let ?req = "\<lparr>route = GenerateName, origin = None, x_api_key = None, body = JObj []\<rparr>"
  let ?env = "\<lparr>ALLOWED_ORIGINS = None, CLIENT_API_KEY = None, OPENAI_API_KEY = Some (str ''sk'')\<rparr>"
  let ?raw = "str ''ace'' @ [CR, LF, LF] @ str ''bo''"
  let ?fetch = "\<lambda>rq::fetch_request. Resolved 200 []
        (Inr (JObj [(str ''choices'',
           JArr [JObj [(str ''message'', JObj [(str ''content'', JStr ?raw)])]])]))"
  let ?prompt = "str ''Generate 15 creative Twitch usernames. Keywords: . Style: short. One per line.''"
  have g: "origin_callback (allowed ?env) (origin ?req) = Inr True" "auth ?env ?req = None"
    by (simp_all add: allowed_def origin_callback_def auth_def)
  have h: "(route ?req = GenerateTitle \<and> name_prompt (body ?req) = title_prompt (body ?req)
              \<and> (200::nat) = 160 \<and> str ''names'' = str ''titles'' \<and> (15::nat) = 10)
       \<or> (route ?req = GenerateName \<and> name_prompt (body ?req) = name_prompt (body ?req)
              \<and> (200::nat) = 200 \<and> str ''names'' = str ''names'' \<and> (15::nat) = 15)
       \<or> (route ?req = GenerateBio \<and> name_prompt (body ?req) = bio_prompt (body ?req)
              \<and> (200::nat) = 160 \<and> str ''names'' = str ''bios'' \<and> (15::nat) = 5)"
    by simp
  have t: "template exact_runtime (name_prompt (body ?req)) = Inr ?prompt"
    using template_name_prompt_empty[of exact_runtime] by simp
  have c: "callOpenAI ?env ?fetch ?prompt 200 = (Inr (JStr ?raw), [chat_request (str ''sk'') ?prompt 200])"
    apply (simp add: callOpenAI_def truthy_def Let_def ok_def first_choice_content_def)
    apply (simp add: str_def)
    done
  have p: "parseLines ?raw 15 = [str ''ace'', str ''bo'']"
    by (simp add: parseLines_def str_def LF_def CR_def trim_def is_ws_def truthy_def)
  show ?thesis
    using generation_success[OF g h t c] p
    by simp
qed

end
